theory Spec2Isabelle
  imports Main "HOL-Library.Log_Nat"
begin

section \<open>Python values and exceptions\<close>

text \<open>
  The exceptions that the modelled part of \<^verbatim>\<open>core.py\<close> can raise. A \<^verbatim>\<open>ValueError\<close>
  carries its message, because the source raises it with the message
  \<^verbatim>\<open>Hemispheres parameter should be one of [-1, 0, 1]\<close> in \<^verbatim>\<open>get_structure_mask\<close>,
  while \<^verbatim>\<open>tuple.index\<close> raises it with another one.
\<close>

datatype py_error =
    KeyError
  | IndexError
  | ValueError string
  | ZeroDivisionError
  | OverflowError
  | AttributeError
  | OSError
  | DuplicateStructure

text \<open>
  An integer index into a sequence or along an axis of length \<open>n\<close>: a negative index
  counts from the end, and anything outside \<open>-n .. n-1\<close> is out of range.
\<close>

definition norm_index :: "nat \<Rightarrow> int \<Rightarrow> nat option" where
  "norm_index n i =
     (if 0 \<le> i \<and> i < int n then Some (nat i)
      else if - int n \<le> i \<and> i < 0 then Some (nat (i + int n))
      else None)"

text \<open>Python's \<^verbatim>\<open>xs[i]\<close> on a list or tuple.\<close>

definition py_getitem :: "'a list \<Rightarrow> int \<Rightarrow> py_error + 'a" where
  "py_getitem xs i =
     (case norm_index (length xs) i of None \<Rightarrow> Inl IndexError | Some j \<Rightarrow> Inr (xs ! j))"

text \<open>\<^verbatim>\<open>xs.index(x)\<close>: the first position of \<open>x\<close>, \<^verbatim>\<open>ValueError\<close> when there is none.\<close>

fun index_of :: "'a list \<Rightarrow> 'a \<Rightarrow> nat option" where
  "index_of [] x = None"
| "index_of (y # ys) x = (if y = x then Some 0 else map_option Suc (index_of ys x))"

definition py_index :: "'a list \<Rightarrow> 'a \<Rightarrow> py_error + nat" where
  "py_index xs x =
     (case index_of xs x of
        None \<Rightarrow> Inl (ValueError ''tuple.index(x): x not in tuple'')
      | Some i \<Rightarrow> Inr i)"

section \<open>Three-dimensional arrays\<close>

text \<open>
  The NumPy the program runs on. The two major versions differ where an integer does
  not fit the element type: NumPy 1 keeps the low-order bits of a Python \<^verbatim>\<open>int\<close> stored
  into an array and promotes an array scalar to the 64-bit default integer when it meets
  a Python \<^verbatim>\<open>int\<close>; NumPy 2 raises \<^verbatim>\<open>OverflowError\<close> on such a store and computes with
  the scalar's own type, wrapping around.
\<close>

datatype numpy = NumPy1 | NumPy2

text \<open>
  The integer element types of the volumes (unsigned 64-bit volumes are left out: NumPy 1
  promotes their scalars to floating point).
\<close>

datatype dtype = UInt8 | UInt16 | UInt32 | Int8 | Int16 | Int32 | Int64

fun dtype_min :: "dtype \<Rightarrow> int" where
  "dtype_min UInt8 = 0"
| "dtype_min UInt16 = 0"
| "dtype_min UInt32 = 0"
| "dtype_min Int8 = - (2 ^ 7)"
| "dtype_min Int16 = - (2 ^ 15)"
| "dtype_min Int32 = - (2 ^ 31)"
| "dtype_min Int64 = - (2 ^ 63)"

fun dtype_max :: "dtype \<Rightarrow> int" where
  "dtype_max UInt8 = 2 ^ 8 - 1"
| "dtype_max UInt16 = 2 ^ 16 - 1"
| "dtype_max UInt32 = 2 ^ 32 - 1"
| "dtype_max Int8 = 2 ^ 7 - 1"
| "dtype_max Int16 = 2 ^ 15 - 1"
| "dtype_max Int32 = 2 ^ 31 - 1"
| "dtype_max Int64 = 2 ^ 63 - 1"


definition in_dtype :: "dtype \<Rightarrow> int \<Rightarrow> bool" where
  "in_dtype d v = (dtype_min d \<le> v \<and> v \<le> dtype_max d)"

text \<open>The value of the dtype with the same low-order bits.\<close>

definition wrap_dtype :: "dtype \<Rightarrow> int \<Rightarrow> int" where
  "wrap_dtype d v = dtype_min d + (v - dtype_min d) mod (dtype_max d - dtype_min d + 1)"

text \<open>Storing the Python \<^verbatim>\<open>int\<close> \<open>v\<close> into an array of dtype \<open>d\<close>.\<close>

definition np_cast :: "numpy \<Rightarrow> dtype \<Rightarrow> int \<Rightarrow> py_error + int" where
  "np_cast np d v =
     (if in_dtype d v then Inr v
      else (case np of NumPy1 \<Rightarrow> Inr (wrap_dtype d v) | NumPy2 \<Rightarrow> Inl OverflowError))"


text \<open>
  A NumPy array of three dimensions: its shape, its dtype and its elements in row-major
  order. A boolean array, the result of an elementwise test, is a record of its own.
\<close>

type_synonym shape3 = "nat \<times> nat \<times> nat"

record 'a ndarray =
  nd_shape :: shape3
  nd_dtype :: dtype
  nd_data :: "'a list"

record bool_array =
  ba_shape :: shape3
  ba_data :: "bool list"

fun size3 :: "shape3 \<Rightarrow> nat" where
  "size3 (s0, s1, s2) = s0 * s1 * s2"

definition wf_ndarray :: "'a ndarray \<Rightarrow> bool" where
  "wf_ndarray a = (length (nd_data a) = size3 (nd_shape a))"

fun axis :: "'a \<times> 'a \<times> 'a \<Rightarrow> nat \<Rightarrow> 'a" where
  "axis (x0, x1, x2) f = (if f = 0 then x0 else if f = 1 then x1 else x2)"

fun ravel :: "shape3 \<Rightarrow> nat \<times> nat \<times> nat \<Rightarrow> nat" where
  "ravel (s0, s1, s2) (i, j, k) = (i * s1 + j) * s2 + k"

fun unravel :: "shape3 \<Rightarrow> nat \<Rightarrow> nat \<times> nat \<times> nat" where
  "unravel (s0, s1, s2) p = (p div (s1 * s2), (p div s2) mod s1, p mod s2)"

text \<open>\<^verbatim>\<open>np.full(shape, v, dtype=d)\<close> and \<^verbatim>\<open>np.zeros(shape, d)\<close>.\<close>

definition np_full :: "shape3 \<Rightarrow> 'a \<Rightarrow> dtype \<Rightarrow> 'a ndarray" where
  "np_full s v d = \<lparr>nd_shape = s, nd_dtype = d, nd_data = replicate (size3 s) v\<rparr>"

definition np_zeros :: "shape3 \<Rightarrow> dtype \<Rightarrow> int ndarray" where
  "np_zeros s d = np_full s 0 d"

text \<open>\<^verbatim>\<open>a[i, j, k]\<close> for three integers; an index out of range raises \<^verbatim>\<open>IndexError\<close>.\<close>

fun nd_getitem :: "'a ndarray \<Rightarrow> int \<times> int \<times> int \<Rightarrow> py_error + 'a" where
  "nd_getitem a (i, j, k) =
     (case nd_shape a of (s0, s1, s2) \<Rightarrow>
        (case (norm_index s0 i, norm_index s1 j, norm_index s2 k) of
           (Some i', Some j', Some k') \<Rightarrow> Inr (nd_data a ! ravel (s0, s1, s2) (i', j', k'))
         | _ \<Rightarrow> Inl IndexError))"

text \<open>
  A slice \<^verbatim>\<open>slice(start, stop)\<close> with step 1; \<^verbatim>\<open>None\<close> is the open end. The bounds
  are clipped to the axis as \<^verbatim>\<open>slice.indices\<close> does.
\<close>

datatype slice = Slice "int option" "int option"

definition slice_bound :: "nat \<Rightarrow> int option \<Rightarrow> nat \<Rightarrow> nat" where
  "slice_bound n b dflt =
     (case b of
        None \<Rightarrow> dflt
      | Some x \<Rightarrow> if x < 0 then nat (max (x + int n) 0) else min (nat x) n)"

fun in_slice :: "nat \<Rightarrow> slice \<Rightarrow> nat \<Rightarrow> bool" where
  "in_slice n (Slice lo hi) i = (slice_bound n lo 0 \<le> i \<and> i < slice_bound n hi n)"

text \<open>\<^verbatim>\<open>a[tuple(slices)] = v\<close> for a list of three slices.\<close>

definition nd_setitem_slices :: "'a ndarray \<Rightarrow> slice list \<Rightarrow> 'a \<Rightarrow> 'a ndarray" where
  "nd_setitem_slices a slices v =
     a\<lparr>nd_data :=
         map (\<lambda>p. case unravel (nd_shape a) p of (i, j, k) \<Rightarrow>
                     (case nd_shape a of (s0, s1, s2) \<Rightarrow>
                        if in_slice s0 (slices ! 0) i \<and> in_slice s1 (slices ! 1) j
                           \<and> in_slice s2 (slices ! 2) k
                        then v else nd_data a ! p))
             [0 ..< length (nd_data a)]\<rparr>"

text \<open>Elementwise tests: \<^verbatim>\<open>np.isin(a, xs)\<close> and \<^verbatim>\<open>a == v\<close>.\<close>

definition np_isin :: "'a ndarray \<Rightarrow> 'a list \<Rightarrow> bool_array" where
  "np_isin a xs = \<lparr>ba_shape = nd_shape a, ba_data = map (\<lambda>x. x \<in> set xs) (nd_data a)\<rparr>"

definition nd_eq :: "'a ndarray \<Rightarrow> 'a \<Rightarrow> bool_array" where
  "nd_eq a v = \<lparr>ba_shape = nd_shape a, ba_data = map (\<lambda>x. x = v) (nd_data a)\<rparr>"

text \<open>
  \<^verbatim>\<open>a[b] = v\<close> for a boolean array \<open>b\<close> and a Python \<^verbatim>\<open>int\<close> \<open>v\<close>: NumPy raises
  \<^verbatim>\<open>IndexError\<close> when the shape of \<open>b\<close> is not the shape of \<open>a\<close>, then converts
  \<open>v\<close> to the dtype of \<open>a\<close> and stores it where \<open>b\<close> is true.
\<close>

definition nd_setitem_mask ::
  "numpy \<Rightarrow> int ndarray \<Rightarrow> bool_array \<Rightarrow> int \<Rightarrow> py_error + int ndarray" where
  "nd_setitem_mask np a b v =
     (if ba_shape b \<noteq> nd_shape a then Inl IndexError
      else (case np_cast np (nd_dtype a) v of
              Inl e \<Rightarrow> Inl e
            | Inr w \<Rightarrow>
                Inr (a\<lparr>nd_data := map (\<lambda>(x, c). if c then w else x)
                                      (zip (nd_data a) (ba_data b))\<rparr>)))"


section \<open>Python numbers\<close>

text \<open>
  A Python number: an \<^verbatim>\<open>int\<close>, or a finite \<^verbatim>\<open>float\<close> given by the rational number it
  stands for. Infinities and NaN are not coordinates or resolutions; an infinity arises
  only as the result of a division (type \<open>quotient\<close> below).
\<close>

datatype pynum = PyInt int | PyFloat rat

fun py_value :: "pynum \<Rightarrow> rat" where
  "py_value (PyInt n) = of_int n"
| "py_value (PyFloat q) = q"

text \<open>
  A \<^verbatim>\<open>float\<close> is an IEEE 754 binary64 number, and the arithmetic rounds to nearest, ties
  to even. \<open>float_exponent q\<close> is the \<open>e\<close> with \<open>2\<^sup>e \<le> |q| < 2\<^sup>e\<^sup>+\<^sup>1\<close>; a double has
  53 significant bits, and no exponent of the last bit below \<open>-1074\<close>. \<open>round_double\<close>
  is \<open>None\<close> when the rounded value is beyond the largest double, where the hardware
  gives an infinity.
\<close>

definition float_exponent :: "rat \<Rightarrow> int" where
  "float_exponent q =
     (case quotient_of \<bar>q\<bar> of (a, b) \<Rightarrow>
        (let k = bitlen a - bitlen b in if 2 powi k \<le> \<bar>q\<bar> then k else k - 1))"

definition round_half_even :: "rat \<Rightarrow> int" where
  "round_half_even q =
     (let f = \<lfloor>q\<rfloor>; d = q - of_int f
      in if d < 1 / 2 then f else if 1 / 2 < d then f + 1 else if even f then f else f + 1)"

definition round_double :: "rat \<Rightarrow> rat option" where
  "round_double q =
     (if q = 0 then Some 0
      else
        (let e = max (float_exponent q - 52) (- 1074);
             r = of_int (round_half_even (q / 2 powi e)) * 2 powi e
         in if 2 powi 1024 \<le> \<bar>r\<bar> then None else Some r))"

text \<open>\<^verbatim>\<open>float(x)\<close>: an \<^verbatim>\<open>int\<close> too large for a double raises \<^verbatim>\<open>OverflowError\<close>.\<close>

fun py_float :: "pynum \<Rightarrow> py_error + rat" where
  "py_float (PyInt n) =
     (case round_double (of_int n) of None \<Rightarrow> Inl OverflowError | Some r \<Rightarrow> Inr r)"
| "py_float (PyFloat q) = Inr q"

text \<open>
  \<^verbatim>\<open>x / y\<close>. Two \<^verbatim>\<open>int\<close>s are divided exactly and the quotient is rounded once; a
  quotient too large raises \<^verbatim>\<open>OverflowError\<close>. Otherwise both operands are converted
  to \<^verbatim>\<open>float\<close> first, and a quotient too large is an infinity. Division by zero raises
  \<^verbatim>\<open>ZeroDivisionError\<close>.
\<close>

datatype quotient = Finite rat | Infinity

fun py_truediv :: "pynum \<Rightarrow> pynum \<Rightarrow> py_error + quotient" where
  "py_truediv (PyInt a) (PyInt b) =
     (if b = 0 then Inl ZeroDivisionError
      else (case round_double (of_int a / of_int b) of
              None \<Rightarrow> Inl OverflowError
            | Some r \<Rightarrow> Inr (Finite r)))"
| "py_truediv x y =
     (case py_float x of
        Inl e \<Rightarrow> Inl e
      | Inr a \<Rightarrow>
          (case py_float y of
             Inl e \<Rightarrow> Inl e
           | Inr b \<Rightarrow>
               if b = 0 then Inl ZeroDivisionError
               else (case round_double (a / b) of
                       None \<Rightarrow> Inr Infinity
                     | Some r \<Rightarrow> Inr (Finite r))))"

text \<open>
  \<^verbatim>\<open>x * y\<close>, the product a caller forms to pass micron coordinates: exact on two
  \<^verbatim>\<open>int\<close>s, rounded when a \<^verbatim>\<open>float\<close> takes part. \<open>None\<close> stands for every outcome
  that is not a finite number.
\<close>

fun py_mul :: "pynum \<Rightarrow> pynum \<Rightarrow> pynum option" where
  "py_mul (PyInt a) (PyInt b) = Some (PyInt (a * b))"
| "py_mul x y =
     (case (py_float x, py_float y) of
        (Inr a, Inr b) \<Rightarrow> map_option PyFloat (round_double (a * b))
      | _ \<Rightarrow> None)"

text \<open>\<^verbatim>\<open>int(c)\<close> truncates toward zero; on an infinity it raises \<^verbatim>\<open>OverflowError\<close>.\<close>

definition trunc :: "rat \<Rightarrow> int" where
  "trunc q = (if 0 \<le> q then \<lfloor>q\<rfloor> else \<lceil>q\<rceil>)"

fun py_int :: "pynum \<Rightarrow> int" where
  "py_int (PyInt n) = n"
| "py_int (PyFloat q) = trunc q"

fun py_int_quotient :: "quotient \<Rightarrow> py_error + int" where
  "py_int_quotient (Finite q) = Inr (trunc q)"
| "py_int_quotient Infinity = Inl OverflowError"

section \<open>The structure catalog\<close>

text \<open>
  One entry of the structures list (a dictionary of the structures JSON file). The mesh
  attributes are left out: no function modelled here reads them.
\<close>

record Structure =
  struct_id :: int
  acronym :: string
  struct_name :: string
  structure_id_path :: "int list"
  rgb_triplet :: "int list"

text \<open>A key of the catalog: an integer id or an acronym.\<close>

datatype key = Id int | Acronym string

text \<open>
  Modelled from the spec: the class \<^verbatim>\<open>StructuresDict\<close> of
  \<^verbatim>\<open>brainglobe_atlasapi.structure_class\<close> is not among the sources. Section 4.1 of
  the specification: the catalog holds a mapping from id to record and a mapping from
  acronym to id, its construction requires unique ids and unique acronyms, and a lookup
  takes an id or an acronym, resolves an acronym through the acronym map first, then
  fetches by id, and fails when the key matches neither. \<^verbatim>\<open>core.py\<close> catches the
  failure of a lookup as \<^verbatim>\<open>KeyError\<close>. The keys of the catalog are the ids, in the
  order of the structures list.
\<close>

record StructuresDict =
  sd_data :: "(int \<times> Structure) list"
  acronym_to_id_map :: "(string \<times> int) list"

definition StructuresDict_init :: "Structure list \<Rightarrow> py_error + StructuresDict" where
  "StructuresDict_init structures_list =
     (if \<not> distinct (map struct_id structures_list) then Inl DuplicateStructure
      else if \<not> distinct (map acronym structures_list) then Inl DuplicateStructure
      else Inr \<lparr>sd_data = map (\<lambda>r. (struct_id r, r)) structures_list,
                acronym_to_id_map = map (\<lambda>r. (acronym r, struct_id r)) structures_list\<rparr>)"

definition sd_getitem :: "StructuresDict \<Rightarrow> key \<Rightarrow> py_error + Structure" where
  "sd_getitem d item =
     (case item of
        Id i \<Rightarrow> (case map_of (sd_data d) i of None \<Rightarrow> Inl KeyError | Some r \<Rightarrow> Inr r)
      | Acronym s \<Rightarrow>
          (case map_of (acronym_to_id_map d) s of
             None \<Rightarrow> Inl KeyError
           | Some i \<Rightarrow> (case map_of (sd_data d) i of None \<Rightarrow> Inl KeyError | Some r \<Rightarrow> Inr r)))"

definition sd_keys :: "StructuresDict \<Rightarrow> int list" where
  "sd_keys d = map fst (sd_data d)"

text \<open>
  Modelled from the spec: \<^verbatim>\<open>get_leaves_from_tree\<close> of \<^verbatim>\<open>brainglobe_atlasapi.utils\<close>
  is not among the sources. Section 4.1: the leaf nodes are the structure ids that never
  appear as a non-final element of any \<^verbatim>\<open>structure_id_path\<close>.
\<close>

definition get_leaves_from_tree :: "Structure list \<Rightarrow> int list" where
  "get_leaves_from_tree structures_list =
     filter (\<lambda>i. list_all (\<lambda>r. i \<notin> set (butlast (structure_id_path r))) structures_list)
       (map struct_id structures_list)"

section \<open>The atlas\<close>

text \<open>The metadata dictionary; \<^verbatim>\<open>additional_references\<close> is the one key that may be absent.\<close>

record metadata =
  md_resolution :: "pynum \<times> pynum \<times> pynum"
  md_orientation :: string
  md_shape :: shape3
  md_symmetric :: bool
  md_additional_references :: "string list option"

text \<open>
  The files under the atlas directory, as \<^verbatim>\<open>read_json\<close> and \<^verbatim>\<open>read_tiff\<close> would return
  them; a TIFF file may be missing. The file names of
  \<^verbatim>\<open>brainglobe_atlasapi.descriptors\<close> are not among the sources, so each file has a slot
  of its own, and \<^verbatim>\<open>additional_tiff n\<close> is the file \<^verbatim>\<open>n.tiff\<close>.
\<close>

record storage =
  metadata_json :: metadata
  structures_json :: "Structure list"
  reference_tiff :: "int ndarray option"
  annotation_tiff :: "int ndarray option"
  hemispheres_tiff :: "int ndarray option"
  additional_tiff :: "string \<Rightarrow> int ndarray option"

definition read_tiff :: "'a option \<Rightarrow> py_error + 'a" where
  "read_tiff file = (case file of None \<Rightarrow> Inl OSError | Some v \<Rightarrow> Inr v)"

text \<open>
  \<^verbatim>\<open>AnatomicalSpace\<close> belongs to the package \<^verbatim>\<open>brainglobe_space\<close>; the atlas reads only
  its \<^verbatim>\<open>axes_order\<close>.
\<close>

record AnatomicalSpace =
  axes_order :: "string list"

text \<open>The lazy store of the secondary references (class \<^verbatim>\<open>AdditionalRefDict\<close>).\<close>

record AdditionalRefDict =
  ard_data :: "(string \<times> int ndarray) list"
  data_path :: storage
  references_list :: "string list"

text \<open>
  The attributes of an \<^verbatim>\<open>Atlas\<close> object. \<^verbatim>\<open>priv_reference\<close>, \<^verbatim>\<open>priv_annotation\<close> and
  \<^verbatim>\<open>priv_hemispheres\<close> are the attributes \<^verbatim>\<open>_reference\<close>, \<^verbatim>\<open>_annotation\<close> and
  \<^verbatim>\<open>_hemispheres\<close>. \<^verbatim>\<open>additional_references\<close> is \<open>None\<close> when the attribute
  was never set.
\<close>

record atlas =
  root_dir :: storage
  metadata :: metadata
  structures_list :: "Structure list"
  structures :: StructuresDict
  leaf_nodes :: "int list"
  space :: AnatomicalSpace
  priv_reference :: "int ndarray option"
  additional_references :: "AdditionalRefDict option"
  priv_annotation :: "int ndarray option"
  priv_hemispheres :: "int ndarray option"

definition LEFT_HEMI_VAL :: int where
  "LEFT_HEMI_VAL = 1"

definition RIGHT_HEMI_VAL :: int where
  "RIGHT_HEMI_VAL = 2"

definition resolution :: "atlas \<Rightarrow> pynum \<times> pynum \<times> pynum" where
  "resolution self = md_resolution (metadata self)"

definition orientation :: "atlas \<Rightarrow> string" where
  "orientation self = md_orientation (metadata self)"

definition shape :: "atlas \<Rightarrow> shape3" where
  "shape self = md_shape (metadata self)"

subsection \<open>Lazily loaded volumes\<close>

text \<open>
  Each property returns its value, or the exception raised, and the atlas with the
  value cached.
\<close>

definition annotation :: "atlas \<Rightarrow> (py_error + int ndarray) \<times> atlas" where
  "annotation self =
     (case priv_annotation self of
        Some a \<Rightarrow> (Inr a, self)
      | None \<Rightarrow>
          (case read_tiff (annotation_tiff (root_dir self)) of
             Inl e \<Rightarrow> (Inl e, self)
           | Inr a \<Rightarrow> (Inr a, self\<lparr>priv_annotation := Some a\<rparr>)))"

definition hemispheres :: "atlas \<Rightarrow> (py_error + int ndarray) \<times> atlas" where
  "hemispheres self =
     (case priv_hemispheres self of
        Some h \<Rightarrow> (Inr h, self)
      | None \<Rightarrow>
          if md_symmetric (metadata self) then
            (let stack = np_full (md_shape (metadata self)) (2 :: int) UInt8 in
             case py_index (axes_order (space self)) ''frontal'' of
               Inl e \<Rightarrow> (Inl e, self)
             | Inr front_ax_idx \<Rightarrow>
                 if 3 \<le> front_ax_idx then (Inl IndexError, self)
                 else
                   (let slices = (replicate 3 (Slice None None))
                          [front_ax_idx :=
                             Slice (Some (int (axis (nd_shape stack) front_ax_idx div 2 + 1))) None];
                        stack' = nd_setitem_slices stack slices 1
                    in (Inr stack', self\<lparr>priv_hemispheres := Some stack'\<rparr>)))
          else
            (case read_tiff (hemispheres_tiff (root_dir self)) of
               Inl e \<Rightarrow> (Inl e, self)
             | Inr h \<Rightarrow> (Inr h, self\<lparr>priv_hemispheres := Some h\<rparr>)))"

subsection \<open>Coordinates\<close>

text \<open>
  \<^verbatim>\<open>_idx_from_coords\<close>. With \<^verbatim>\<open>microns\<close> the three quotients are formed first, then
  each is converted with \<^verbatim>\<open>int\<close>.
\<close>

definition idx_from_coords ::
  "atlas \<Rightarrow> pynum \<times> pynum \<times> pynum \<Rightarrow> bool \<Rightarrow> py_error + int \<times> int \<times> int" where
  "idx_from_coords self coords microns =
     (case coords of (c0, c1, c2) \<Rightarrow>
        if microns then
          (case resolution self of (r0, r1, r2) \<Rightarrow>
             (case py_truediv c0 r0 of Inl e \<Rightarrow> Inl e | Inr q0 \<Rightarrow>
             (case py_truediv c1 r1 of Inl e \<Rightarrow> Inl e | Inr q1 \<Rightarrow>
             (case py_truediv c2 r2 of Inl e \<Rightarrow> Inl e | Inr q2 \<Rightarrow>
             (case py_int_quotient q0 of Inl e \<Rightarrow> Inl e | Inr i \<Rightarrow>
             (case py_int_quotient q1 of Inl e \<Rightarrow> Inl e | Inr j \<Rightarrow>
             (case py_int_quotient q2 of Inl e \<Rightarrow> Inl e | Inr k \<Rightarrow>
                Inr (i, j, k))))))))
        else Inr (py_int c0, py_int c1, py_int c2))"



text \<open>The value \<^verbatim>\<open>structure_from_coords\<close> returns: an id, or an acronym or the given string.\<close>

datatype structure_result = StructId int | StructName string

definition structure_from_coords ::
  "atlas \<Rightarrow> pynum \<times> pynum \<times> pynum \<Rightarrow> bool \<Rightarrow> bool \<Rightarrow> int option \<Rightarrow> string
     \<Rightarrow> (py_error + structure_result) \<times> atlas" where
  "structure_from_coords self coords microns as_acronym hierarchy_lev key_error_string =
     (case annotation self of
        (Inl e, self') \<Rightarrow> (Inl e, self')
      | (Inr vol, self') \<Rightarrow>
          (case idx_from_coords self' coords microns of
             Inl e \<Rightarrow> (Inl e, self')
           | Inr idx \<Rightarrow>
               (case nd_getitem vol idx of
                  Inl e \<Rightarrow> (Inl e, self')
                | Inr rid0 \<Rightarrow>
                    (case (case hierarchy_lev of
                             None \<Rightarrow> Inr rid0
                           | Some lev \<Rightarrow>
                               (case sd_getitem (structures self') (Id rid0) of
                                  Inl e \<Rightarrow> Inl e
                                | Inr r \<Rightarrow> py_getitem (structure_id_path r) lev)) of
                       Inl e \<Rightarrow> (Inl e, self')
                     | Inr rid \<Rightarrow>
                         if as_acronym then
                           (case sd_getitem (structures self') (Id rid) of
                              Inl e \<Rightarrow>
                                if e = KeyError then (Inr (StructName key_error_string), self')
                                else (Inl e, self')
                            | Inr d \<Rightarrow> (Inr (StructName (acronym d)), self'))
                         else (Inr (StructId rid), self')))))"

subsection \<open>Hierarchy queries\<close>

text \<open>
  \<^verbatim>\<open>_get_from_structure\<close>: the attribute of one structure, or of each structure of a
  list, the first failing lookup raising. The attribute is given by its selector
  instead of its name.
\<close>

definition get_from_structure :: "atlas \<Rightarrow> key \<Rightarrow> (Structure \<Rightarrow> 'a) \<Rightarrow> py_error + 'a" where
  "get_from_structure self k field =
     (case sd_getitem (structures self) k of Inl e \<Rightarrow> Inl e | Inr r \<Rightarrow> Inr (field r))"

fun get_from_structures :: "atlas \<Rightarrow> key list \<Rightarrow> (Structure \<Rightarrow> 'a) \<Rightarrow> py_error + 'a list" where
  "get_from_structures self [] field = Inr []"
| "get_from_structures self (s # ss) field =
     (case get_from_structure self s field of
        Inl e \<Rightarrow> Inl e
      | Inr v \<Rightarrow>
          (case get_from_structures self ss field of
             Inl e \<Rightarrow> Inl e
           | Inr vs \<Rightarrow> Inr (v # vs)))"

definition get_structure_ancestors :: "atlas \<Rightarrow> key \<Rightarrow> py_error + string list" where
  "get_structure_ancestors self k =
     (case get_from_structure self k structure_id_path of
        Inl e \<Rightarrow> Inl e
      | Inr path \<Rightarrow> get_from_structures self (map Id (butlast path)) acronym)"

text \<open>The loop of \<^verbatim>\<open>get_structure_descendants\<close> over the keys of the catalog.\<close>

fun descendants_loop ::
  "atlas \<Rightarrow> string \<Rightarrow> int list \<Rightarrow> string list \<Rightarrow> py_error + string list" where
  "descendants_loop self s [] descendants = Inr descendants"
| "descendants_loop self s (struc # rest) descendants =
     (case get_structure_ancestors self (Id struc) of
        Inl e \<Rightarrow> Inl e
      | Inr ancestors \<Rightarrow>
          if s \<in> set ancestors then
            (case get_from_structure self (Id struc) acronym of
               Inl e \<Rightarrow> Inl e
             | Inr a \<Rightarrow> descendants_loop self s rest (descendants @ [a]))
          else descendants_loop self s rest descendants)"

definition get_structure_descendants :: "atlas \<Rightarrow> key \<Rightarrow> py_error + string list" where
  "get_structure_descendants self k =
     (case get_from_structure self k acronym of
        Inl e \<Rightarrow> Inl e
      | Inr s \<Rightarrow> descendants_loop self s (sd_keys (structures self)) [])"

subsection \<open>Masks\<close>

text \<open>
  \<^verbatim>\<open>get_structure_mask\<close>. The mask has the dtype of the annotation volume, and the id of
  the structure, a Python \<^verbatim>\<open>int\<close>, is converted to that dtype when it is stored.
\<close>

definition get_structure_mask ::
  "numpy \<Rightarrow> atlas \<Rightarrow> key \<Rightarrow> int \<Rightarrow> (py_error + int ndarray) \<times> atlas" where
  "get_structure_mask np self k hemisphere =
     (case sd_getitem (structures self) k of
        Inl e \<Rightarrow> (Inl e, self)
      | Inr r \<Rightarrow>
     (let structure_id = struct_id r in
      case get_structure_descendants self k of
        Inl e \<Rightarrow> (Inl e, self)
      | Inr descendants \<Rightarrow>
     (case get_from_structures self (map Acronym descendants) struct_id of
        Inl e \<Rightarrow> (Inl e, self)
      | Inr ids \<Rightarrow>
     (let descendant_ids = ids @ [structure_id] in
      case annotation self of
        (Inl e, self1) \<Rightarrow> (Inl e, self1)
      | (Inr dtype_of, self1) \<Rightarrow>
     (let mask_stack = np_zeros (shape self1) (nd_dtype dtype_of) in
      case annotation self1 of
        (Inl e, self2) \<Rightarrow> (Inl e, self2)
      | (Inr vol, self2) \<Rightarrow>
     (case nd_setitem_mask np mask_stack (np_isin vol descendant_ids) structure_id of
        Inl e \<Rightarrow> (Inl e, self2)
      | Inr mask_stack \<Rightarrow>
          if \<not> hemisphere = 0 then
            if hemisphere = - 1 then
              (case hemispheres self2 of
                 (Inl e, self3) \<Rightarrow> (Inl e, self3)
               | (Inr hem, self3) \<Rightarrow>
                   (case nd_setitem_mask np mask_stack (nd_eq hem RIGHT_HEMI_VAL) 0 of
                      Inl e \<Rightarrow> (Inl e, self3)
                    | Inr mask_stack \<Rightarrow> (Inr mask_stack, self3)))
            else if hemisphere = 1 then
              (case hemispheres self2 of
                 (Inl e, self3) \<Rightarrow> (Inl e, self3)
               | (Inr hem, self3) \<Rightarrow>
                   (case nd_setitem_mask np mask_stack (nd_eq hem LEFT_HEMI_VAL) 0 of
                      Inl e \<Rightarrow> (Inl e, self3)
                    | Inr mask_stack \<Rightarrow> (Inr mask_stack, self3)))
            else (Inl (ValueError ''Hemispheres parameter should be one of [-1, 0, 1]''), self2)
          else (Inr mask_stack, self2)))))))"

section \<open>The lazy reference store\<close>

text \<open>What a call does besides returning: the warnings it emits and the files it reads.\<close>

datatype warning = OutdatedAtlas | NoReferenceNamed string "string list"

datatype event = Warn warning | ReadTiff string

text \<open>
  \<^verbatim>\<open>AdditionalRefDict.__init__\<close>; \<open>args\<close> is the initial content handed on to
  \<^verbatim>\<open>UserDict.__init__\<close>.
\<close>

definition AdditionalRefDict_init ::
  "string list \<Rightarrow> storage \<Rightarrow> (string \<times> int ndarray) list \<Rightarrow> AdditionalRefDict" where
  "AdditionalRefDict_init refs path args =
     \<lparr>ard_data = args, data_path = path, references_list = refs\<rparr>"

definition ard_keys :: "AdditionalRefDict \<Rightarrow> string list" where
  "ard_keys self = map fst (ard_data self)"

text \<open>
  \<^verbatim>\<open>AdditionalRefDict.__getitem__\<close>: the value returned (\<open>None\<close> is Python's
  \<^verbatim>\<open>None\<close>) or the exception, the store afterwards, and the events in order.
\<close>

definition ard_getitem ::
  "AdditionalRefDict \<Rightarrow> string
     \<Rightarrow> (py_error + int ndarray option) \<times> AdditionalRefDict \<times> event list" where
  "ard_getitem self ref_name =
     (if ref_name \<notin> set (ard_keys self) then
        if ref_name \<notin> set (references_list self) then
          (Inr None, self, [Warn (NoReferenceNamed ref_name (references_list self))])
        else
          (case read_tiff (additional_tiff (data_path self) ref_name) of
             Inl e \<Rightarrow> (Inl e, self, [ReadTiff ref_name])
           | Inr v \<Rightarrow>
               (Inr (Some v), self\<lparr>ard_data := ard_data self @ [(ref_name, v)]\<rparr>,
                [ReadTiff ref_name]))
      else
        (case map_of (ard_data self) ref_name of
           None \<Rightarrow> (Inl KeyError, self, [])
         | Some v \<Rightarrow> (Inr (Some v), self, [])))"

section \<open>Construction of the atlas\<close>

text \<open>
  \<^verbatim>\<open>Atlas.__init__\<close>. The constructor of \<^verbatim>\<open>AnatomicalSpace\<close> is a parameter. The result
  is the atlas, or the exception raised, and the warnings emitted.
\<close>

definition Atlas_init ::
  "storage \<Rightarrow> (string \<Rightarrow> shape3 \<Rightarrow> pynum \<times> pynum \<times> pynum \<Rightarrow> AnatomicalSpace)
     \<Rightarrow> (py_error + atlas) \<times> warning list" where
  "Atlas_init path mk_space =
     (let md = metadata_json path; sl = structures_json path in
      case StructuresDict_init sl of
        Inl e \<Rightarrow> (Inl e, [])
      | Inr sd \<Rightarrow>
          (let self =
                 \<lparr>root_dir = path, metadata = md, structures_list = sl, structures = sd,
                  leaf_nodes = get_leaves_from_tree sl,
                  space = mk_space (md_orientation md) (md_shape md) (md_resolution md),
                  priv_reference = None, additional_references = None,
                  priv_annotation = None, priv_hemispheres = None\<rparr>
           in case md_additional_references md of
                Some refs \<Rightarrow>
                  (Inr (self\<lparr>additional_references :=
                               Some (AdditionalRefDict_init refs path [])\<rparr>), [])
              | None \<Rightarrow> (Inr self, [OutdatedAtlas])))"

text \<open>Reading the attribute \<^verbatim>\<open>additional_references\<close> of an atlas.\<close>

definition get_additional_references :: "atlas \<Rightarrow> py_error + AdditionalRefDict" where
  "get_additional_references self =
     (case additional_references self of None \<Rightarrow> Inl AttributeError | Some d \<Rightarrow> Inr d)"

section \<open>Invariants of the data model\<close>

text \<open>
  Section 3 of the specification: every id in a record's \<^verbatim>\<open>structure_id_path\<close> before
  the last one is the id of a record of the structures list.
\<close>

definition paths_resolve :: "Structure list \<Rightarrow> bool" where
  "paths_resolve sl =
     list_all (\<lambda>r. list_all (\<lambda>i. i \<in> set (map struct_id sl)) (butlast (structure_id_path r))) sl"


text \<open>
  The states of a reference store that an atlas can reach: \<^verbatim>\<open>Atlas.__init__\<close> constructs
  the store with no initial content, and afterwards it changes only through lookups.
\<close>

inductive store_reachable :: "AdditionalRefDict \<Rightarrow> bool" where
  init: "store_reachable (AdditionalRefDict_init refs path [])"
| lookup: "store_reachable s \<Longrightarrow> ard_getitem s n = (r, s', ev) \<Longrightarrow> store_reachable s'"

section \<open>Example atlases\<close>

text \<open>
  A small catalog: the root, a structure \<open>A\<close> (id 7) with the children \<open>B\<close> (8) and
  \<open>C\<close> (9), and a structure \<open>D\<close> (99) beside it.
\<close>

definition example_structures :: "Structure list" where
  "example_structures =
     [\<lparr>struct_id = 1, acronym = ''root'', struct_name = ''root'',
       structure_id_path = [1], rgb_triplet = [255, 255, 255]\<rparr>,
      \<lparr>struct_id = 7, acronym = ''A'', struct_name = ''region A'',
       structure_id_path = [1, 7], rgb_triplet = [255, 0, 0]\<rparr>,
      \<lparr>struct_id = 8, acronym = ''B'', struct_name = ''region B'',
       structure_id_path = [1, 7, 8], rgb_triplet = [0, 255, 0]\<rparr>,
      \<lparr>struct_id = 9, acronym = ''C'', struct_name = ''region C'',
       structure_id_path = [1, 7, 9], rgb_triplet = [0, 0, 255]\<rparr>,
      \<lparr>struct_id = 99, acronym = ''D'', struct_name = ''region D'',
       structure_id_path = [1, 99], rgb_triplet = [0, 0, 0]\<rparr>]"

definition example_catalog :: StructuresDict where
  "example_catalog =
     \<lparr>sd_data = map (\<lambda>r. (struct_id r, r)) example_structures,
      acronym_to_id_map = map (\<lambda>r. (acronym r, struct_id r)) example_structures\<rparr>"

definition example_space :: "string \<Rightarrow> shape3 \<Rightarrow> pynum \<times> pynum \<times> pynum \<Rightarrow> AnatomicalSpace" where
  "example_space origin shp res = \<lparr>axes_order = [''frontal'', ''sagittal'', ''vertical'']\<rparr>"

text \<open>A symmetric atlas of shape \<open>(10, 8, 6)\<close> with no hemispheres file.\<close>

definition symmetric_storage :: storage where
  "symmetric_storage =
     \<lparr>metadata_json =
        \<lparr>md_resolution = (PyInt 25, PyInt 25, PyInt 25), md_orientation = ''lsa'',
         md_shape = (10, 8, 6), md_symmetric = True,
         md_additional_references = Some []\<rparr>,
      structures_json = example_structures,
      reference_tiff = None, annotation_tiff = None, hemispheres_tiff = None,
      additional_tiff = (\<lambda>n. None)\<rparr>"

definition symmetric_atlas :: atlas where
  "symmetric_atlas =
     \<lparr>root_dir = symmetric_storage, metadata = metadata_json symmetric_storage,
      structures_list = example_structures, structures = example_catalog,
      leaf_nodes = [8, 9, 99],
      space = example_space ''lsa'' (10, 8, 6) (PyInt 25, PyInt 25, PyInt 25),
      priv_reference = None,
      additional_references = Some (AdditionalRefDict_init [] symmetric_storage []),
      priv_annotation = None, priv_hemispheres = None\<rparr>"

text \<open>
  An atlas of shape \<open>(2, 2, 2)\<close> that is not symmetric, with its annotation and
  hemispheres files and one secondary reference.
\<close>

definition example_annotation :: "int ndarray" where
  "example_annotation =
     \<lparr>nd_shape = (2, 2, 2), nd_dtype = UInt32, nd_data = [0, 7, 8, 9, 99, 7, 0, 8]\<rparr>"

definition example_hemispheres :: "int ndarray" where
  "example_hemispheres =
     \<lparr>nd_shape = (2, 2, 2), nd_dtype = UInt8, nd_data = [1, 2, 1, 2, 1, 2, 1, 2]\<rparr>"

definition example_metadata :: metadata where
  "example_metadata =
     \<lparr>md_resolution = (PyInt 25, PyInt 25, PyInt 25), md_orientation = ''asl'',
      md_shape = (2, 2, 2), md_symmetric = False,
      md_additional_references = Some [''extra'']\<rparr>"

definition example_storage :: storage where
  "example_storage =
     \<lparr>metadata_json = example_metadata,
      structures_json = example_structures,
      reference_tiff = Some example_annotation,
      annotation_tiff = Some example_annotation,
      hemispheres_tiff = Some example_hemispheres,
      additional_tiff = (\<lambda>n. if n = ''extra'' then Some example_annotation else None)\<rparr>"

definition example_atlas :: atlas where
  "example_atlas =
     \<lparr>root_dir = example_storage, metadata = example_metadata,
      structures_list = example_structures, structures = example_catalog,
      leaf_nodes = [8, 9, 99],
      space = example_space ''asl'' (2, 2, 2) (PyInt 25, PyInt 25, PyInt 25),
      priv_reference = None,
      additional_references = Some (AdditionalRefDict_init [''extra''] example_storage []),
      priv_annotation = None, priv_hemispheres = None\<rparr>"

text \<open>The same files with a metadata file that has no \<^verbatim>\<open>additional_references\<close> key.\<close>

definition outdated_storage :: storage where
  "outdated_storage =
     example_storage\<lparr>metadata_json := example_metadata\<lparr>md_additional_references := None\<rparr>\<rparr>"

text \<open>The reference store of the example atlas.\<close>

definition example_store :: AdditionalRefDict where
  "example_store = AdditionalRefDict_init [''extra''] example_storage []"



text \<open>
  An atlas whose resolution is 0.1 micron along each axis: the double nearest to 0.1 is
  \<open>3602879701896397 / 2\<^sup>5\<^sup>5\<close>.
\<close>

definition fine_atlas :: atlas where
  "fine_atlas =
     example_atlas\<lparr>metadata := example_metadata\<lparr>md_resolution :=
       (PyFloat (3602879701896397 / 36028797018963968),
        PyFloat (3602879701896397 / 36028797018963968),
        PyFloat (3602879701896397 / 36028797018963968))\<rparr>\<rparr>"

text \<open>An atlas whose resolution is \<open>(25, 0.5, 6.5)\<close>, the first an \<^verbatim>\<open>int\<close>.\<close>

definition mixed_atlas :: atlas where
  "mixed_atlas =
     example_atlas\<lparr>metadata := example_metadata\<lparr>md_resolution :=
       (PyInt 25, PyFloat (1 / 2), PyFloat (13 / 2))\<rparr>\<rparr>"


text \<open>
  An atlas whose annotation file has the dtype \<^verbatim>\<open>uint8\<close>, with a catalog in which the
  structure \<open>E\<close> has the id 300 and the child \<open>F\<close> (id 5).
\<close>

definition wide_structures :: "Structure list" where
  "wide_structures =
     [\<lparr>struct_id = 1, acronym = ''root'', struct_name = ''root'',
       structure_id_path = [1], rgb_triplet = [255, 255, 255]\<rparr>,
      \<lparr>struct_id = 300, acronym = ''E'', struct_name = ''region E'',
       structure_id_path = [1, 300], rgb_triplet = [255, 0, 0]\<rparr>,
      \<lparr>struct_id = 5, acronym = ''F'', struct_name = ''region F'',
       structure_id_path = [1, 300, 5], rgb_triplet = [0, 255, 0]\<rparr>]"

definition narrow_annotation :: "int ndarray" where
  "narrow_annotation =
     \<lparr>nd_shape = (2, 2, 2), nd_dtype = UInt8, nd_data = [5, 0, 5, 0, 0, 0, 0, 0]\<rparr>"

definition narrow_atlas :: atlas where
  "narrow_atlas =
     example_atlas
       \<lparr>root_dir := example_storage\<lparr>structures_json := wide_structures,
                                      annotation_tiff := Some narrow_annotation\<rparr>,
        structures_list := wide_structures,
        structures :=
          \<lparr>sd_data = map (\<lambda>r. (struct_id r, r)) wide_structures,
           acronym_to_id_map = map (\<lambda>r. (acronym r, struct_id r)) wide_structures\<rparr>,
        leaf_nodes := [5]\<rparr>"

subsection \<open>Facts about indexing\<close>

lemma ravel_less:
  assumes "i < s0" "j < s1" "k < s2"
  shows "ravel (s0, s1, s2) (i, j, k) < size3 (s0, s1, s2)"
proof -
  have "i * s1 + j < s0 * s1"
  proof -
    have "i * s1 + j < i * s1 + s1" using assms by simp
    also have "\<dots> = Suc i * s1" by simp
    also have "\<dots> \<le> s0 * s1" using assms by (intro mult_le_mono1) simp
    finally show ?thesis .
  qed
  then have "Suc (i * s1 + j) * s2 \<le> (s0 * s1) * s2"
    by (intro mult_le_mono1) simp
  moreover have "(i * s1 + j) * s2 + k < Suc (i * s1 + j) * s2"
    using assms by simp
  ultimately show ?thesis by simp
qed

lemma unravel_ravel:
  assumes "j < s1" "k < s2"
  shows "unravel (s0, s1, s2) (ravel (s0, s1, s2) (i, j, k)) = (i, j, k)"
proof -
  have a: "((i * s1 + j) * s2 + k) div s2 = i * s1 + j" using assms by simp
  have b: "((i * s1 + j) * s2 + k) mod s2 = k" using assms by simp
  have c: "((i * s1 + j) * s2 + k) div (s1 * s2) = i"
  proof -
    have "((i * s1 + j) * s2 + k) div (s1 * s2) = (((i * s1 + j) * s2 + k) div s2) div s1"
      by (simp only: mult.commute [of s1 s2] div_mult2_eq)
    also have "\<dots> = i" using assms by (simp add: a)
    finally show ?thesis .
  qed
  show ?thesis using assms by (simp add: a b c)
qed

lemma norm_index_nat: "i < n \<Longrightarrow> norm_index n (int i) = Some i"
  by (simp add: norm_index_def)

lemma nd_getitem_in_range:
  assumes "nd_shape a = (s0, s1, s2)" "i < s0" "j < s1" "k < s2"
  shows "nd_getitem a (int i, int j, int k) = Inr (nd_data a ! ravel (s0, s1, s2) (i, j, k))"
  using assms by (simp add: norm_index_nat)



lemma index_of_less: "index_of xs x = Some i \<Longrightarrow> i < length xs"
  by (induction xs arbitrary: i) (auto split: if_splits)

lemma nd_getitem_setitem_slices:
  assumes "nd_shape a = (s0, s1, s2)" "wf_ndarray a" "i < s0" "j < s1" "k < s2"
  shows "nd_getitem (nd_setitem_slices a sl v) (int i, int j, int k) =
           Inr (if in_slice s0 (sl ! 0) i \<and> in_slice s1 (sl ! 1) j \<and> in_slice s2 (sl ! 2) k
                then v else nd_data a ! ravel (s0, s1, s2) (i, j, k))"
proof -
  let ?p = "ravel (s0, s1, s2) (i, j, k)"
  have len: "?p < length (nd_data a)"
    using ravel_less [OF assms(3-5)] assms(1,2) by (simp add: wf_ndarray_def)
  have un: "unravel (s0, s1, s2) ?p = (i, j, k)"
    using assms by (intro unravel_ravel) auto
  have sh: "nd_shape (nd_setitem_slices a sl v) = (s0, s1, s2)"
    using assms(1) by (simp add: nd_setitem_slices_def)
  have "nd_data (nd_setitem_slices a sl v) ! ?p =
          (if in_slice s0 (sl ! 0) i \<and> in_slice s1 (sl ! 1) j \<and> in_slice s2 (sl ! 2) k
           then v else nd_data a ! ?p)"
    using len un assms(1) by (simp add: nd_setitem_slices_def del: ravel.simps unravel.simps)
  then show ?thesis
    using nd_getitem_in_range [OF sh assms(3-5)] by (simp del: ravel.simps)
qed

lemma in_slice_all: "i < n \<Longrightarrow> in_slice n (Slice None None) i"
  by (simp add: slice_bound_def)

lemma in_slice_from: "i < n \<Longrightarrow> in_slice n (Slice (Some (int st)) None) i = (st \<le> i)"
  by (auto simp add: slice_bound_def)

lemma wf_np_full: "wf_ndarray (np_full s v d)"
  by (simp add: wf_ndarray_def np_full_def)

lemma frontal_slices:
  assumes "f < 3" "i < s0" "j < s1" "k < s2"
  shows "(in_slice s0 ((replicate 3 (Slice None None))[f := Slice (Some (int st)) None] ! 0) i
        \<and> in_slice s1 ((replicate 3 (Slice None None))[f := Slice (Some (int st)) None] ! 1) j
        \<and> in_slice s2 ((replicate 3 (Slice None None))[f := Slice (Some (int st)) None] ! 2) k)
       = (st \<le> axis (i, j, k) f)"
proof -
  consider "f = 0" | "f = 1" | "f = 2" using assms(1) by linarith
  then show ?thesis
  proof cases
    case 1
    then show ?thesis using assms
      by (simp add: numeral_3_eq_3 in_slice_all in_slice_from del: in_slice.simps)
  next
    case 2
    then show ?thesis using assms
      by (simp add: numeral_3_eq_3 in_slice_all in_slice_from del: in_slice.simps)
  next
    case 3
    then show ?thesis using assms
      by (simp add: numeral_3_eq_3 in_slice_all in_slice_from del: in_slice.simps)
  qed
qed

text \<open>
  Claim C3. When the metadata say \<^verbatim>\<open>symmetric\<close> and no hemisphere volume is cached yet,
  the property \<^verbatim>\<open>hemispheres\<close> builds and caches a volume of the atlas shape whose value
  is 1 (left) at exactly the voxels whose index along the frontal axis is at least
  \<open>shape[frontal] div 2 + 1\<close>, and 2 (right) at every other voxel. The frontal axis
  is the position of \<^verbatim>\<open>"frontal"\<close> among the three axis names of the space.
\<close>

theorem hemispheres_symmetric:
  assumes sym: "md_symmetric (metadata self)"
    and fresh: "priv_hemispheres self = None"
    and idx: "index_of (axes_order (space self)) ''frontal'' = Some f"
    and len: "length (axes_order (space self)) = 3"
    and shp: "shape self = (s0, s1, s2)"
  shows "\<exists>h. hemispheres self = (Inr h, self\<lparr>priv_hemispheres := Some h\<rparr>)
           \<and> nd_shape h = shape self
           \<and> nd_dtype h = UInt8
           \<and> (\<forall>i j k. i < s0 \<and> j < s1 \<and> k < s2 \<longrightarrow>
                 nd_getitem h (int i, int j, int k) =
                   Inr (if axis (s0, s1, s2) f div 2 + 1 \<le> axis (i, j, k) f
                        then LEFT_HEMI_VAL else RIGHT_HEMI_VAL))"
proof -
  have f3: "f < 3" using index_of_less [OF idx] len by simp
  define st where "st = axis (s0, s1, s2) f div 2 + 1"
  define sl where "sl = (replicate 3 (Slice None None))[f := Slice (Some (int st)) None]"
  define h where "h = nd_setitem_slices (np_full (s0, s1, s2) (2 :: int) UInt8) sl 1"
  have md: "md_shape (metadata self) = (s0, s1, s2)" using shp by (simp add: shape_def)
  have run: "hemispheres self = (Inr h, self\<lparr>priv_hemispheres := Some h\<rparr>)"
    using sym fresh idx f3 md
    by (simp add: hemispheres_def py_index_def Let_def h_def sl_def st_def np_full_def
          del: axis.simps)
  have sh: "nd_shape h = (s0, s1, s2)" and dt: "nd_dtype h = UInt8"
    by (simp_all add: h_def nd_setitem_slices_def np_full_def)
  have pt: "nd_getitem h (int i, int j, int k) =
              Inr (if st \<le> axis (i, j, k) f then LEFT_HEMI_VAL else RIGHT_HEMI_VAL)"
    if "i < s0" "j < s1" "k < s2" for i j k
  proof -
    have full: "nd_shape (np_full (s0, s1, s2) (2 :: int) UInt8) = (s0, s1, s2)"
      by (simp add: np_full_def)
    have at: "nd_data (np_full (s0, s1, s2) (2 :: int) UInt8) ! ravel (s0, s1, s2) (i, j, k) = 2"
      using ravel_less [OF that] by (simp add: np_full_def del: ravel.simps)
    show ?thesis
      unfolding h_def
      using nd_getitem_setitem_slices [OF full wf_np_full that, of sl 1]
        frontal_slices [OF f3 that, of st]
      by (simp add: at sl_def LEFT_HEMI_VAL_def RIGHT_HEMI_VAL_def
            del: ravel.simps in_slice.simps axis.simps)
  qed
  show ?thesis
    using run sh dt shp pt unfolding st_def by (intro exI [of _ h]) (simp del: axis.simps)
qed

theorem hemispheres_symmetric_witness:
  "md_symmetric (metadata symmetric_atlas)
   \<and> priv_hemispheres symmetric_atlas = None
   \<and> index_of (axes_order (space symmetric_atlas)) ''frontal'' = Some 0
   \<and> shape symmetric_atlas = (10, 8, 6)
   \<and> (\<exists>h. hemispheres symmetric_atlas = (Inr h, symmetric_atlas\<lparr>priv_hemispheres := Some h\<rparr>)
          \<and> nd_shape h = (10, 8, 6)
          \<and> nd_getitem h (6, 0, 0) = Inr 1
          \<and> nd_getitem h (5, 7, 5) = Inr 2)"
proof -
  have a: "md_symmetric (metadata symmetric_atlas)"
    and b: "priv_hemispheres symmetric_atlas = None"
    and c: "index_of (axes_order (space symmetric_atlas)) ''frontal'' = Some 0"
    and d: "length (axes_order (space symmetric_atlas)) = 3"
    and e: "shape symmetric_atlas = (10, 8, 6)"
    by (simp_all add: symmetric_atlas_def symmetric_storage_def example_space_def shape_def)
  obtain h where run: "hemispheres symmetric_atlas = (Inr h, symmetric_atlas\<lparr>priv_hemispheres := Some h\<rparr>)"
    and sh: "nd_shape h = shape symmetric_atlas"
    and pt: "\<And>i j k. i < 10 \<and> j < 8 \<and> k < 6 \<Longrightarrow>
               nd_getitem h (int i, int j, int k) =
                 Inr (if axis (10, 8, 6) 0 div 2 + 1 \<le> axis (i, j, k) 0
                      then LEFT_HEMI_VAL else RIGHT_HEMI_VAL)"
    using hemispheres_symmetric [OF a b c d e] by blast
  have "nd_getitem h (6, 0, 0) = Inr 1"
    using pt [of 6 0 0] by (simp add: LEFT_HEMI_VAL_def)
  moreover have "nd_getitem h (5, 7, 5) = Inr 2"
    using pt [of 5 7 5] by (simp add: RIGHT_HEMI_VAL_def)
  ultimately show ?thesis
    using a b c e run sh by auto
qed

subsection \<open>Facts about the catalog\<close>

lemma init_data:
  assumes "StructuresDict_init sl = Inr d"
  shows "sd_data d = map (\<lambda>r. (struct_id r, r)) sl"
    and "acronym_to_id_map d = map (\<lambda>r. (acronym r, struct_id r)) sl"
    and "distinct (map struct_id sl)" and "distinct (map acronym sl)"
  using assms by (auto simp: StructuresDict_init_def split: if_splits)

lemma map_of_by_id:
  assumes "distinct (map struct_id sl)" "r \<in> set sl"
  shows "map_of (map (\<lambda>r. (struct_id r, r)) sl) (struct_id r) = Some r"
  using assms by (intro map_of_is_SomeI) (auto simp: comp_def)

lemma map_of_by_acronym:
  assumes "distinct (map acronym sl)" "r \<in> set sl"
  shows "map_of (map (\<lambda>r. (acronym r, struct_id r)) sl) (acronym r) = Some (struct_id r)"
  using assms by (intro map_of_is_SomeI) (auto simp: comp_def)

lemma sd_getitem_id:
  assumes "StructuresDict_init sl = Inr d" "r \<in> set sl"
  shows "sd_getitem d (Id (struct_id r)) = Inr r"
  using init_data [OF assms(1)] assms(2) by (simp add: sd_getitem_def map_of_by_id)

lemma sd_getitem_acronym:
  assumes "StructuresDict_init sl = Inr d" "r \<in> set sl"
  shows "sd_getitem d (Acronym (acronym r)) = Inr r"
  using init_data [OF assms(1)] assms(2)
  by (simp add: sd_getitem_def map_of_by_id map_of_by_acronym)

lemma sd_getitem_mem:
  assumes "StructuresDict_init sl = Inr d" "sd_getitem d k = Inr r"
  shows "r \<in> set sl"
proof -
  have "map_of (sd_data d) i = Some r \<Longrightarrow> r \<in> set sl" for i
    using init_data(1) [OF assms(1)] by (auto dest: map_of_SomeD)
  then show ?thesis
    using assms(2) by (auto simp: sd_getitem_def split: key.splits option.splits)
qed

lemma sd_getitem_unknown_id:
  assumes "StructuresDict_init sl = Inr d" "i \<notin> set (map struct_id sl)"
  shows "sd_getitem d (Id i) = Inl KeyError"
proof -
  have "map_of (sd_data d) i = None"
    using init_data(1) [OF assms(1)] assms(2) by (simp add: map_of_eq_None_iff image_image)
  then show ?thesis by (simp add: sd_getitem_def)
qed

lemma sd_keys_init:
  assumes "StructuresDict_init sl = Inr d"
  shows "sd_keys d = map struct_id sl"
  using init_data(1) [OF assms] by (simp add: sd_keys_def comp_def)

lemma get_from_structures_map:
  assumes "\<And>k. k \<in> set ks \<Longrightarrow> sd_getitem (structures self) k = Inr (g k)"
  shows "get_from_structures self ks field = Inr (map (\<lambda>k. field (g k)) ks)"
  using assms by (induction ks) (simp_all add: get_from_structure_def)


lemma paths_resolveD:
  assumes "paths_resolve sl" "r \<in> set sl" "i \<in> set (butlast (structure_id_path r))"
  shows "\<exists>r' \<in> set sl. struct_id r' = i"
proof -
  have "i \<in> struct_id ` set sl"
    using assms by (auto simp: paths_resolve_def list_all_iff)
  then show ?thesis by auto
qed

lemma acronym_inj:
  assumes "StructuresDict_init sl = Inr d" "r \<in> set sl" "r' \<in> set sl" "acronym r = acronym r'"
  shows "r = r'"
  using init_data(4) [OF assms(1)] assms(2-4) by (auto simp: distinct_map dest: inj_onD)

lemma struct_id_inj:
  assumes "StructuresDict_init sl = Inr d" "r \<in> set sl" "r' \<in> set sl" "struct_id r = struct_id r'"
  shows "r = r'"
  using init_data(3) [OF assms(1)] assms(2-4) by (auto simp: distinct_map dest: inj_onD)

lemma get_structure_ancestors_ok:
  assumes cat: "StructuresDict_init sl = Inr (structures self)"
    and paths: "paths_resolve sl"
    and key: "sd_getitem (structures self) k = Inr S"
  shows "\<exists>as. get_structure_ancestors self k = Inr as
           \<and> length as = length (structure_id_path S) - 1
           \<and> (\<forall>P \<in> set sl. acronym P \<in> set as
                  \<longleftrightarrow> struct_id P \<in> set (butlast (structure_id_path S)))"
proof -
  define d where "d = structures self"
  define rec where "rec i = (case sd_getitem d (Id i) of Inr r \<Rightarrow> r)" for i
  define path where "path = butlast (structure_id_path S)"
  define as where "as = map (\<lambda>i. acronym (rec i)) path"
  have S: "S \<in> set sl" using sd_getitem_mem [OF cat key] .
  have rec_id: "rec (struct_id r) = r" if "r \<in> set sl" for r
    using sd_getitem_id [OF cat that] by (simp add: rec_def d_def)
  have look: "sd_getitem (structures self) (Id i) = Inr (rec i) \<and> rec i \<in> set sl \<and> struct_id (rec i) = i"
    if ip: "i \<in> set path" for i
  proof -
    obtain r' where r': "r' \<in> set sl" "struct_id r' = i"
      using paths_resolveD [OF paths S, of i] ip by (auto simp: path_def)
    show ?thesis using sd_getitem_id [OF cat r'(1)] r' rec_id [OF r'(1)] by simp
  qed
  have "get_from_structures self (map Id path) acronym = Inr (map (\<lambda>k. acronym (case k of Id i \<Rightarrow> rec i)) (map Id path))"
    by (intro get_from_structures_map) (use look in auto)
  then have run: "get_structure_ancestors self k = Inr as"
    using key by (simp add: get_structure_ancestors_def get_from_structure_def as_def path_def comp_def)
  have mem: "acronym P \<in> set as \<longleftrightarrow> struct_id P \<in> set path" if P: "P \<in> set sl" for P
  proof
    assume "acronym P \<in> set as"
    then obtain i where i: "i \<in> set path" "acronym (rec i) = acronym P"
      by (auto simp: as_def)
    have "rec i = P" using acronym_inj [OF cat _ P i(2)] look [OF i(1)] by simp
    then show "struct_id P \<in> set path" using look [OF i(1)] i(1) by auto
  next
    assume "struct_id P \<in> set path"
    then show "acronym P \<in> set as"
      using rec_id [OF P] by (force simp: as_def)
  qed
  show ?thesis using run mem by (auto simp: as_def path_def)
qed

lemma descendants_loop_filter:
  assumes "\<And>r. r \<in> set rs \<Longrightarrow>
             \<exists>as. get_structure_ancestors self (Id (struct_id r)) = Inr as \<and> (s \<in> set as \<longleftrightarrow> Q r)"
    and "\<And>r. r \<in> set rs \<Longrightarrow> sd_getitem (structures self) (Id (struct_id r)) = Inr r"
  shows "descendants_loop self s (map struct_id rs) acc = Inr (acc @ map acronym (filter Q rs))"
  using assms
proof (induction rs arbitrary: acc)
  case Nil
  then show ?case by simp
next
  case (Cons r rs)
  obtain as where as: "get_structure_ancestors self (Id (struct_id r)) = Inr as" "s \<in> set as \<longleftrightarrow> Q r"
    using Cons.prems(1) [of r] by auto
  have look: "get_from_structure self (Id (struct_id r)) acronym = Inr (acronym r)"
    using Cons.prems(2) [of r] by (simp add: get_from_structure_def)
  have ih: "descendants_loop self s (map struct_id rs) acc' = Inr (acc' @ map acronym (filter Q rs))" for acc'
    using Cons.prems by (intro Cons.IH) auto
  show ?case using as look ih by simp
qed

lemma get_structure_descendants_ok:
  assumes cat: "StructuresDict_init sl = Inr (structures self)"
    and paths: "paths_resolve sl"
    and key: "sd_getitem (structures self) k = Inr P"
  shows "get_structure_descendants self k =
           Inr (map acronym
                  (filter (\<lambda>r. struct_id P \<in> set (butlast (structure_id_path r))) sl))"
proof -
  have P: "P \<in> set sl" using sd_getitem_mem [OF cat key] .
  have "descendants_loop self (acronym P) (map struct_id sl) [] =
          Inr ([] @ map acronym (filter (\<lambda>r. struct_id P \<in> set (butlast (structure_id_path r))) sl))"
  proof (rule descendants_loop_filter)
    fix r assume r: "r \<in> set sl"
    show "sd_getitem (structures self) (Id (struct_id r)) = Inr r"
      using sd_getitem_id [OF cat r] .
    then show "\<exists>as. get_structure_ancestors self (Id (struct_id r)) = Inr as
              \<and> (acronym P \<in> set as \<longleftrightarrow> struct_id P \<in> set (butlast (structure_id_path r)))"
      using get_structure_ancestors_ok [OF cat paths, of "Id (struct_id r)" r] P by blast
  qed
  then show ?thesis
    using key sd_keys_init [OF cat]
    by (simp add: get_structure_descendants_def get_from_structure_def)
qed

lemma example_catalog_init: "StructuresDict_init example_structures = Inr example_catalog"
  by (simp add: StructuresDict_init_def example_structures_def example_catalog_def)

lemma example_paths_resolve: "paths_resolve example_structures"
  by (simp add: paths_resolve_def example_structures_def)

text \<open>
  Claim C4. In a catalog built from a structures list whose paths resolve, for every two
  structures \<open>S\<close> and \<open>P\<close> (each named by an id or an acronym), both queries return, and
  the acronym of \<open>S\<close> is among \<^verbatim>\<open>get_structure_descendants(P)\<close> if and only if the
  acronym of \<open>P\<close> is among \<^verbatim>\<open>get_structure_ancestors(S)\<close>.
\<close>

theorem descendants_iff_ancestors:
  assumes cat: "StructuresDict_init sl = Inr (structures self)"
    and paths: "paths_resolve sl"
    and keyS: "sd_getitem (structures self) kS = Inr S"
    and keyP: "sd_getitem (structures self) kP = Inr P"
  shows "\<exists>ds as. get_structure_descendants self kP = Inr ds
            \<and> get_structure_ancestors self kS = Inr as
            \<and> (acronym S \<in> set ds \<longleftrightarrow> acronym P \<in> set as)"
proof -
  have S: "S \<in> set sl" and P: "P \<in> set sl"
    using sd_getitem_mem [OF cat keyS] sd_getitem_mem [OF cat keyP] .
  obtain as where as: "get_structure_ancestors self kS = Inr as"
    "acronym P \<in> set as \<longleftrightarrow> struct_id P \<in> set (butlast (structure_id_path S))"
    using get_structure_ancestors_ok [OF cat paths keyS] P by blast
  let ?ds = "map acronym (filter (\<lambda>r. struct_id P \<in> set (butlast (structure_id_path r))) sl)"
  have "acronym S \<in> set ?ds \<longleftrightarrow> struct_id P \<in> set (butlast (structure_id_path S))"
  proof
    assume "acronym S \<in> set ?ds"
    then obtain r where r: "r \<in> set sl" "struct_id P \<in> set (butlast (structure_id_path r))"
      "acronym r = acronym S" by auto
    have "r = S" using acronym_inj [OF cat r(1) S r(3)] .
    then show "struct_id P \<in> set (butlast (structure_id_path S))" using r(2) by simp
  next
    assume "struct_id P \<in> set (butlast (structure_id_path S))"
    then show "acronym S \<in> set ?ds" using S by auto
  qed
  then show ?thesis
    using get_structure_descendants_ok [OF cat paths keyP] as by simp
qed

theorem descendants_iff_ancestors_witness:
  "StructuresDict_init example_structures = Inr (structures symmetric_atlas)
   \<and> paths_resolve example_structures
   \<and> (\<exists>S P. sd_getitem (structures symmetric_atlas) (Acronym ''B'') = Inr S
          \<and> sd_getitem (structures symmetric_atlas) (Id 7) = Inr P
          \<and> acronym S = ''B'' \<and> acronym P = ''A''
          \<and> (\<exists>ds as. get_structure_descendants symmetric_atlas (Id 7) = Inr ds
                 \<and> get_structure_ancestors symmetric_atlas (Acronym ''B'') = Inr as
                 \<and> (''B'' \<in> set ds \<longleftrightarrow> ''A'' \<in> set as)))"
proof -
  define S where "S = example_structures ! 2"
  define P where "P = example_structures ! 1"
  have cat: "StructuresDict_init example_structures = Inr (structures symmetric_atlas)"
    using example_catalog_init by (simp add: symmetric_atlas_def)
  have keyS: "sd_getitem (structures symmetric_atlas) (Acronym ''B'') = Inr S"
    by (simp add: S_def symmetric_atlas_def example_catalog_def example_structures_def
          sd_getitem_def)
  have keyP: "sd_getitem (structures symmetric_atlas) (Id 7) = Inr P"
    by (simp add: P_def symmetric_atlas_def example_catalog_def example_structures_def
          sd_getitem_def)
  have names: "acronym S = ''B''" "acronym P = ''A''"
    by (simp_all add: S_def P_def example_structures_def)
  show ?thesis
    using descendants_iff_ancestors [OF cat example_paths_resolve keyS keyP]
      cat example_paths_resolve keyS keyP names
    by auto
qed


subsection \<open>Facts about masks\<close>

lemma annotation_frame:
  assumes "annotation self = (Inr vol, self')"
  shows "annotation self' = (Inr vol, self')"
    and "structures self' = structures self"
    and "metadata self' = metadata self"
    and "shape self' = shape self"
    and "priv_hemispheres self' = priv_hemispheres self"
    and "root_dir self' = root_dir self"
    and "space self' = space self"
  using assms
  by (auto simp: annotation_def read_tiff_def shape_def split: option.splits)


lemma get_from_structures_acronyms:
  assumes "\<And>r. r \<in> set rs \<Longrightarrow> sd_getitem (structures self) (Acronym (acronym r)) = Inr r"
  shows "get_from_structures self (map Acronym (map acronym rs)) field = Inr (map field rs)"
  using assms by (induction rs) (simp_all add: get_from_structure_def)

lemma in_dtype_zero: "in_dtype d 0"
  by (cases d) (simp_all add: in_dtype_def)

lemma np_cast_fits: "in_dtype d v \<Longrightarrow> np_cast np d v = Inr v"
  by (simp add: np_cast_def)

lemma np_cast_zero: "np_cast np d 0 = Inr 0"
  by (simp add: np_cast_fits in_dtype_zero)

lemma np_cast_error: "np_cast np d v = Inl e \<Longrightarrow> e = OverflowError \<and> np = NumPy2 \<and> \<not> in_dtype d v"
  by (auto simp: np_cast_def split: if_splits numpy.splits)

lemma nd_getitem_mask_assign:
  assumes "nd_shape a = (s0, s1, s2)" "ba_shape b = (s0, s1, s2)"
    and "wf_ndarray a" "length (ba_data b) = size3 (s0, s1, s2)"
    and "i < s0" "j < s1" "k < s2"
  shows "nd_getitem (a\<lparr>nd_data := map (\<lambda>(x, c). if c then v else x) (zip (nd_data a) (ba_data b))\<rparr>)
           (int i, int j, int k) =
         Inr (if ba_data b ! ravel (s0, s1, s2) (i, j, k) then v
              else nd_data a ! ravel (s0, s1, s2) (i, j, k))"
proof -
  let ?p = "ravel (s0, s1, s2) (i, j, k)"
  let ?m = "a\<lparr>nd_data := map (\<lambda>(x, c). if c then v else x) (zip (nd_data a) (ba_data b))\<rparr>"
  have len: "?p < length (nd_data a)" "?p < length (ba_data b)"
    using ravel_less [OF assms(5-7)] assms(1-4) by (simp_all add: wf_ndarray_def)
  have sh: "nd_shape ?m = (s0, s1, s2)" using assms(1) by simp
  have "nd_data ?m ! ?p = (if ba_data b ! ?p then v else nd_data a ! ?p)"
    using len by (simp del: ravel.simps)
  then show ?thesis
    using nd_getitem_in_range [OF sh assms(5-7)] by (simp del: ravel.simps)
qed

lemma wf_mask_assign:
  assumes "wf_ndarray a" "length (ba_data b) = size3 (nd_shape a)"
  shows "wf_ndarray (a\<lparr>nd_data := map (\<lambda>(x, c). if c then v else x) (zip (nd_data a) (ba_data b))\<rparr>)"
  using assms by (simp add: wf_ndarray_def)

lemma nd_setitem_mask_ok:
  assumes "ba_shape b = nd_shape a" "np_cast np (nd_dtype a) v = Inr w"
  shows "nd_setitem_mask np a b v =
           Inr (a\<lparr>nd_data := map (\<lambda>(x, c). if c then w else x) (zip (nd_data a) (ba_data b))\<rparr>)"
  using assms by (simp add: nd_setitem_mask_def)

lemma np_isin_nth:
  assumes "p < length (nd_data a)"
  shows "ba_data (np_isin a xs) ! p = (nd_data a ! p \<in> set xs)"
  using assms by (simp add: np_isin_def)

lemma nd_eq_nth:
  assumes "p < length (nd_data a)"
  shows "ba_data (nd_eq a v) ! p = (nd_data a ! p = v)"
  using assms by (simp add: nd_eq_def)

lemma np_zeros_facts:
  "nd_shape (np_zeros s d) = s" "nd_dtype (np_zeros s d) = d" "wf_ndarray (np_zeros s d)"
  "p < size3 s \<Longrightarrow> nd_data (np_zeros s d) ! p = 0"
  by (simp_all add: np_zeros_def np_full_def wf_ndarray_def)

text \<open>
  The part of \<^verbatim>\<open>get_structure_mask\<close> before the hemisphere filter, when the id of the
  structure converts to \<open>w\<close> in the dtype of the annotation: the mask holds \<open>w\<close> where
  the annotation holds the id of the structure or of a structure that has this id on
  its path before the last entry.
\<close>

lemma get_structure_mask_prefix:
  assumes cat: "StructuresDict_init sl = Inr (structures self)"
    and paths: "paths_resolve sl"
    and key: "sd_getitem (structures self) k = Inr S"
    and ann: "annotation self = (Inr vol, self')"
    and vsh: "nd_shape vol = shape self"
    and shp: "shape self = (s0, s1, s2)"
    and cst: "np_cast np (nd_dtype vol) (struct_id S) = Inr w"
  defines "ids \<equiv> insert (struct_id S)
                     (struct_id ` {r \<in> set sl. struct_id S \<in> set (butlast (structure_id_path r))})"
  shows "\<exists>m. nd_shape m = shape self \<and> nd_dtype m = nd_dtype vol
           \<and> (wf_ndarray vol \<longrightarrow> wf_ndarray m
                \<and> (\<forall>i j k'. i < s0 \<and> j < s1 \<and> k' < s2 \<longrightarrow>
                      nd_getitem m (int i, int j, int k') =
                        Inr (if nd_data vol ! ravel (s0, s1, s2) (i, j, k') \<in> ids
                             then w else 0)))
           \<and> (\<forall>hemisphere. get_structure_mask np self k hemisphere =
                 (if hemisphere = 0 then (Inr m, self')
                  else if hemisphere = - 1 then
                    (case hemispheres self' of
                       (Inl e, self3) \<Rightarrow> (Inl e, self3)
                     | (Inr hem, self3) \<Rightarrow>
                         (case nd_setitem_mask np m (nd_eq hem RIGHT_HEMI_VAL) 0 of
                            Inl e \<Rightarrow> (Inl e, self3)
                          | Inr m' \<Rightarrow> (Inr m', self3)))
                  else if hemisphere = 1 then
                    (case hemispheres self' of
                       (Inl e, self3) \<Rightarrow> (Inl e, self3)
                     | (Inr hem, self3) \<Rightarrow>
                         (case nd_setitem_mask np m (nd_eq hem LEFT_HEMI_VAL) 0 of
                            Inl e \<Rightarrow> (Inl e, self3)
                          | Inr m' \<Rightarrow> (Inr m', self3)))
                  else (Inl (ValueError ''Hemispheres parameter should be one of [-1, 0, 1]''),
                        self')))"
proof -
  let ?rs = "filter (\<lambda>r. struct_id S \<in> set (butlast (structure_id_path r))) sl"
  define idl where "idl = map struct_id ?rs @ [struct_id S]"
  define z where "z = np_zeros (shape self) (nd_dtype vol)"
  define b where "b = np_isin vol idl"
  define m where "m = z\<lparr>nd_data := map (\<lambda>(x, c). if c then w else x)
                                      (zip (nd_data z) (ba_data b))\<rparr>"
  have idl_set: "set idl = ids" by (auto simp: idl_def ids_def)
  have desc: "get_structure_descendants self k = Inr (map acronym ?rs)"
    using get_structure_descendants_ok [OF cat paths key] .
  have look: "get_from_structures self (map Acronym (map acronym ?rs)) struct_id = Inr (map struct_id ?rs)"
    by (intro get_from_structures_acronyms) (use sd_getitem_acronym [OF cat] in auto)
  have zsh: "nd_shape z = (s0, s1, s2)" and zdt: "nd_dtype z = nd_dtype vol"
    and zwf: "wf_ndarray z"
    using shp by (simp_all add: z_def np_zeros_facts)
  have bsh: "ba_shape b = (s0, s1, s2)"
    using vsh shp by (simp add: b_def np_isin_def)
  have blen: "length (ba_data b) = size3 (s0, s1, s2)" if "wf_ndarray vol"
    using vsh shp that by (simp add: b_def np_isin_def wf_ndarray_def)
  have set: "nd_setitem_mask np (np_zeros (shape self') (nd_dtype vol)) (np_isin vol idl) (struct_id S)
               = Inr m"
    using nd_setitem_mask_ok [of b z np "struct_id S" w] zsh zdt bsh cst annotation_frame(4) [OF ann]
    by (simp add: m_def z_def b_def)
  have run: "get_structure_mask np self k hemisphere =
          (if hemisphere = 0 then (Inr m, self')
           else if hemisphere = - 1 then
             (case hemispheres self' of
                (Inl e, self3) \<Rightarrow> (Inl e, self3)
              | (Inr hem, self3) \<Rightarrow>
                  (case nd_setitem_mask np m (nd_eq hem RIGHT_HEMI_VAL) 0 of
                     Inl e \<Rightarrow> (Inl e, self3)
                   | Inr m' \<Rightarrow> (Inr m', self3)))
           else if hemisphere = 1 then
             (case hemispheres self' of
                (Inl e, self3) \<Rightarrow> (Inl e, self3)
              | (Inr hem, self3) \<Rightarrow>
                  (case nd_setitem_mask np m (nd_eq hem LEFT_HEMI_VAL) 0 of
                     Inl e \<Rightarrow> (Inl e, self3)
                   | Inr m' \<Rightarrow> (Inr m', self3)))
           else (Inl (ValueError ''Hemispheres parameter should be one of [-1, 0, 1]''), self'))"
    for hemisphere
    unfolding get_structure_mask_def
    using key desc look ann annotation_frame(1) [OF ann] set
    by (simp add: Let_def idl_def)
  have msh: "nd_shape m = shape self" using zsh shp by (simp add: m_def)
  have mdt: "nd_dtype m = nd_dtype vol" using zdt by (simp add: m_def)
  have mwf: "wf_ndarray m" if "wf_ndarray vol"
    unfolding m_def using zsh zwf blen [OF that] by (intro wf_mask_assign) simp_all
  have pt: "nd_getitem m (int i, int j, int k') =
              Inr (if nd_data vol ! ravel (s0, s1, s2) (i, j, k') \<in> ids then w else 0)"
    if vwf: "wf_ndarray vol" and rng: "i < s0" "j < s1" "k' < s2" for i j k'
  proof -
    let ?p = "ravel (s0, s1, s2) (i, j, k')"
    have lt: "?p < size3 (s0, s1, s2)" using ravel_less [OF rng] .
    have len: "?p < length (nd_data vol)"
      using lt vwf vsh shp by (simp add: wf_ndarray_def)
    have bp: "ba_data b ! ?p = (nd_data vol ! ?p \<in> ids)"
      unfolding b_def using np_isin_nth [OF len] idl_set by simp
    have zp: "nd_data z ! ?p = 0"
      unfolding z_def using np_zeros_facts(4) lt shp by simp
    show ?thesis
      unfolding m_def
      using nd_getitem_mask_assign [OF zsh bsh zwf blen [OF vwf] rng, of w] bp zp
      by (simp del: ravel.simps)
  qed
  show ?thesis
    using msh mdt mwf pt run by (intro exI [of _ m]) blast
qed

text \<open>When the id does not convert, the store raises before the hemisphere is looked at.\<close>

lemma get_structure_mask_overflow:
  assumes cat: "StructuresDict_init sl = Inr (structures self)"
    and paths: "paths_resolve sl"
    and key: "sd_getitem (structures self) k = Inr S"
    and ann: "annotation self = (Inr vol, self')"
    and vsh: "nd_shape vol = shape self"
    and cst: "np_cast np (nd_dtype vol) (struct_id S) = Inl e"
  shows "get_structure_mask np self k hemisphere = (Inl e, self')"
proof -
  let ?rs = "filter (\<lambda>r. struct_id S \<in> set (butlast (structure_id_path r))) sl"
  have desc: "get_structure_descendants self k = Inr (map acronym ?rs)"
    using get_structure_descendants_ok [OF cat paths key] .
  have look: "get_from_structures self (map Acronym (map acronym ?rs)) struct_id = Inr (map struct_id ?rs)"
    by (intro get_from_structures_acronyms) (use sd_getitem_acronym [OF cat] in auto)
  have "nd_setitem_mask np (np_zeros (shape self') (nd_dtype vol))
          (np_isin vol (map struct_id ?rs @ [struct_id S])) (struct_id S) = Inl e"
    using vsh cst annotation_frame(4) [OF ann]
    by (simp add: nd_setitem_mask_def np_isin_def np_zeros_facts)
  then show ?thesis
    unfolding get_structure_mask_def
    using key desc look ann annotation_frame(1) [OF ann]
    by (simp add: Let_def)
qed







lemma hemispheres_error:
  "hemispheres self = (Inl e, self') \<Longrightarrow>
     e = OSError \<or> e = IndexError \<or> e = ValueError ''tuple.index(x): x not in tuple''"
  by (auto simp: hemispheres_def read_tiff_def py_index_def Let_def
        split: option.splits if_splits sum.splits)

lemma nd_setitem_mask_error:
  "nd_setitem_mask np a b v = Inl e \<Longrightarrow> e = IndexError \<or> e = OverflowError"
  by (auto simp: nd_setitem_mask_def split: if_splits sum.splits dest: np_cast_error)

lemma filtered_mask_error:
  assumes "(case hemispheres self of
              (Inl e, self3) \<Rightarrow> (Inl e, self3)
            | (Inr hem, self3) \<Rightarrow>
                (case nd_setitem_mask np m (nd_eq hem v) 0 of
                   Inl e \<Rightarrow> (Inl e, self3)
                 | Inr m' \<Rightarrow> (Inr m', self3))) = (Inl e, s)"
  shows "e = OSError \<or> e = IndexError \<or> e = OverflowError
           \<or> e = ValueError ''tuple.index(x): x not in tuple''"
  using assms
  by (auto split: prod.splits sum.splits dest: hemispheres_error nd_setitem_mask_error)


lemma example_atlas_annotation:
  "annotation example_atlas =
     (Inr example_annotation, example_atlas\<lparr>priv_annotation := Some example_annotation\<rparr>)"
  by (simp add: annotation_def example_atlas_def example_storage_def read_tiff_def)

lemma example_atlas_hemispheres:
  "hemispheres (example_atlas\<lparr>priv_annotation := Some example_annotation\<rparr>) =
     (Inr example_hemispheres,
      example_atlas\<lparr>priv_annotation := Some example_annotation,
                     priv_hemispheres := Some example_hemispheres\<rparr>)"
  by (simp add: hemispheres_def example_atlas_def example_storage_def example_metadata_def
        read_tiff_def)

lemma example_atlas_catalog:
  "StructuresDict_init example_structures = Inr (structures example_atlas)"
  using example_catalog_init by (simp add: example_atlas_def)

lemma example_atlas_key_A:
  "sd_getitem (structures example_atlas) (Id 7) = Inr (example_structures ! 1)"
  by (simp add: example_atlas_def example_catalog_def example_structures_def sd_getitem_def)

lemma example_atlas_shape: "shape example_atlas = (2, 2, 2)"
  by (simp add: shape_def example_atlas_def example_metadata_def)


lemma narrow_atlas_catalog:
  "StructuresDict_init wide_structures = Inr (structures narrow_atlas)"
  by (simp add: StructuresDict_init_def wide_structures_def narrow_atlas_def)

lemma wide_paths_resolve: "paths_resolve wide_structures"
  by (simp add: paths_resolve_def wide_structures_def)

lemma narrow_atlas_key_E:
  "sd_getitem (structures narrow_atlas) (Id 300) = Inr (wide_structures ! 1)"
  by (simp add: narrow_atlas_def wide_structures_def sd_getitem_def)

lemma narrow_atlas_annotation:
  "annotation narrow_atlas =
     (Inr narrow_annotation, narrow_atlas\<lparr>priv_annotation := Some narrow_annotation\<rparr>)"
  by (simp add: annotation_def narrow_atlas_def example_atlas_def example_storage_def
        read_tiff_def)

lemma narrow_atlas_shape: "shape narrow_atlas = (2, 2, 2)"
  by (simp add: shape_def narrow_atlas_def example_atlas_def example_metadata_def)

text \<open>
  Claim C1, as amended. In an atlas whose catalog satisfies the invariants of the data
  model and whose annotation volume loads with the atlas shape, for every valid structure
  key whose id fits the dtype of the annotation volume, \<^verbatim>\<open>get_structure_mask\<close> with
  \<^verbatim>\<open>hemisphere=0\<close> returns a volume of the atlas shape and of that dtype that holds, at
  each voxel, the id of the structure if the annotation value there is that id or the id
  of a descendant, and 0 otherwise. The descendants are the structures that have the id
  of the structure on their \<^verbatim>\<open>structure_id_path\<close> before the last entry, and they are
  the ones \<^verbatim>\<open>get_structure_descendants\<close> returns. When the hemisphere volume loads with
  the atlas shape, \<^verbatim>\<open>hemisphere=-1\<close> returns that mask with 0 at every voxel whose
  hemisphere value is 2 (right), and \<^verbatim>\<open>hemisphere=1\<close> with 0 at every voxel whose
  hemisphere value is 1 (left). This holds on either NumPy.
\<close>

theorem get_structure_mask_voxels:
  assumes cat: "StructuresDict_init sl = Inr (structures self)"
    and paths: "paths_resolve sl"
    and key: "sd_getitem (structures self) k = Inr S"
    and ann: "annotation self = (Inr vol, self')"
    and vsh: "nd_shape vol = shape self"
    and vwf: "wf_ndarray vol"
    and shp: "shape self = (s0, s1, s2)"
    and fits: "in_dtype (nd_dtype vol) (struct_id S)"
  shows "\<exists>ds m.
           get_structure_descendants self k = Inr ds
         \<and> set ds = {acronym D | D. D \<in> set sl
                                   \<and> struct_id S \<in> set (butlast (structure_id_path D))}
         \<and> get_structure_mask np self k 0 = (Inr m, self')
         \<and> nd_shape m = shape self
         \<and> nd_dtype m = nd_dtype vol
         \<and> (\<forall>i j k'. i < s0 \<and> j < s1 \<and> k' < s2 \<longrightarrow>
               (\<exists>a. nd_getitem vol (int i, int j, int k') = Inr a
                  \<and> nd_getitem m (int i, int j, int k') =
                      Inr (if a \<in> insert (struct_id S)
                                     {struct_id D | D. D \<in> set sl
                                        \<and> struct_id S \<in> set (butlast (structure_id_path D))}
                           then struct_id S else 0)))
         \<and> (\<forall>hem self''.
               hemispheres self' = (Inr hem, self'') \<and> wf_ndarray hem
               \<and> nd_shape hem = shape self \<longrightarrow>
               (\<exists>ml mr.
                   get_structure_mask np self k (- 1) = (Inr ml, self'')
                 \<and> get_structure_mask np self k 1 = (Inr mr, self'')
                 \<and> nd_shape ml = shape self \<and> nd_shape mr = shape self
                 \<and> (\<forall>i j k'. i < s0 \<and> j < s1 \<and> k' < s2 \<longrightarrow>
                       (\<exists>a h. nd_getitem m (int i, int j, int k') = Inr a
                          \<and> nd_getitem hem (int i, int j, int k') = Inr h
                          \<and> nd_getitem ml (int i, int j, int k') =
                              Inr (if h = RIGHT_HEMI_VAL then 0 else a)
                          \<and> nd_getitem mr (int i, int j, int k') =
                              Inr (if h = LEFT_HEMI_VAL then 0 else a)))))"
proof -
  let ?rs = "filter (\<lambda>r. struct_id S \<in> set (butlast (structure_id_path r))) sl"
  let ?ds = "map acronym ?rs"
  let ?ids = "insert (struct_id S)
                (struct_id ` {r \<in> set sl. struct_id S \<in> set (butlast (structure_id_path r))})"
  have desc: "get_structure_descendants self k = Inr ?ds"
    using get_structure_descendants_ok [OF cat paths key] .
  have dset: "set ?ds = {acronym D | D. D \<in> set sl
                                      \<and> struct_id S \<in> set (butlast (structure_id_path D))}"
    by auto
  have ids: "{struct_id D | D. D \<in> set sl \<and> struct_id S \<in> set (butlast (structure_id_path D))} =
             struct_id ` {r \<in> set sl. struct_id S \<in> set (butlast (structure_id_path r))}"
    by auto
  have cst: "np_cast np (nd_dtype vol) (struct_id S) = Inr (struct_id S)"
    using fits by (rule np_cast_fits)
  obtain m where msh: "nd_shape m = shape self" and mdt: "nd_dtype m = nd_dtype vol"
    and mwf: "wf_ndarray m"
    and mpt: "\<And>i j k'. i < s0 \<and> j < s1 \<and> k' < s2 \<Longrightarrow>
               nd_getitem m (int i, int j, int k') =
                 Inr (if nd_data vol ! ravel (s0, s1, s2) (i, j, k') \<in> ?ids then struct_id S else 0)"
    and run: "\<And>hemisphere. get_structure_mask np self k hemisphere =
                 (if hemisphere = 0 then (Inr m, self')
                  else if hemisphere = - 1 then
                    (case hemispheres self' of
                       (Inl e, self3) \<Rightarrow> (Inl e, self3)
                     | (Inr hem, self3) \<Rightarrow>
                         (case nd_setitem_mask np m (nd_eq hem RIGHT_HEMI_VAL) 0 of
                            Inl e \<Rightarrow> (Inl e, self3)
                          | Inr m' \<Rightarrow> (Inr m', self3)))
                  else if hemisphere = 1 then
                    (case hemispheres self' of
                       (Inl e, self3) \<Rightarrow> (Inl e, self3)
                     | (Inr hem, self3) \<Rightarrow>
                         (case nd_setitem_mask np m (nd_eq hem LEFT_HEMI_VAL) 0 of
                            Inl e \<Rightarrow> (Inl e, self3)
                          | Inr m' \<Rightarrow> (Inr m', self3)))
                  else (Inl (ValueError ''Hemispheres parameter should be one of [-1, 0, 1]''),
                        self'))"
    using get_structure_mask_prefix [OF cat paths key ann vsh shp cst] vwf by blast
  have m3: "nd_shape m = (s0, s1, s2)" using msh shp by simp
  have v3: "nd_shape vol = (s0, s1, s2)" using vsh shp by simp
  have base: "\<exists>a. nd_getitem vol (int i, int j, int k') = Inr a
                \<and> nd_getitem m (int i, int j, int k') =
                    Inr (if a \<in> insert (struct_id S)
                                   {struct_id D | D. D \<in> set sl
                                      \<and> struct_id S \<in> set (butlast (structure_id_path D))}
                         then struct_id S else 0)"
    if rng: "i < s0 \<and> j < s1 \<and> k' < s2" for i j k'
    using nd_getitem_in_range [OF v3, of i j k'] mpt [OF rng] rng
    unfolding ids by (simp del: ravel.simps)
  have filt: "\<exists>ml mr.
                 get_structure_mask np self k (- 1) = (Inr ml, self'')
               \<and> get_structure_mask np self k 1 = (Inr mr, self'')
               \<and> nd_shape ml = shape self \<and> nd_shape mr = shape self
               \<and> (\<forall>i j k'. i < s0 \<and> j < s1 \<and> k' < s2 \<longrightarrow>
                     (\<exists>a h. nd_getitem m (int i, int j, int k') = Inr a
                        \<and> nd_getitem hem (int i, int j, int k') = Inr h
                        \<and> nd_getitem ml (int i, int j, int k') =
                            Inr (if h = RIGHT_HEMI_VAL then 0 else a)
                        \<and> nd_getitem mr (int i, int j, int k') =
                            Inr (if h = LEFT_HEMI_VAL then 0 else a)))"
    if hem: "hemispheres self' = (Inr hem, self'')" and hwf: "wf_ndarray hem"
      and hsh: "nd_shape hem = shape self" for hem self''
  proof -
    let ?upd = "\<lambda>v. m\<lparr>nd_data := map (\<lambda>(x, c). if c then 0 else x)
                                     (zip (nd_data m) (ba_data (nd_eq hem v)))\<rparr>"
    have h3: "nd_shape hem = (s0, s1, s2)" using hsh shp by simp
    have esh: "ba_shape (nd_eq hem v) = (s0, s1, s2)" for v
      using h3 by (simp add: nd_eq_def)
    have elen: "length (ba_data (nd_eq hem v)) = size3 (s0, s1, s2)" for v
      using h3 hwf by (simp add: nd_eq_def wf_ndarray_def)
    have set: "nd_setitem_mask np m (nd_eq hem v) 0 = Inr (?upd v)" for v
      using nd_setitem_mask_ok [of "nd_eq hem v" m np 0 0] esh m3 np_cast_zero by simp
    have l: "get_structure_mask np self k (- 1) = (Inr (?upd RIGHT_HEMI_VAL), self'')"
      and r: "get_structure_mask np self k 1 = (Inr (?upd LEFT_HEMI_VAL), self'')"
      using run [of "- 1"] run [of 1] hem set by simp_all
    have pt: "nd_getitem (?upd v) (int i, int j, int k') =
                Inr (if nd_data hem ! ravel (s0, s1, s2) (i, j, k') = v then 0
                     else nd_data m ! ravel (s0, s1, s2) (i, j, k'))"
      if rng: "i < s0" "j < s1" "k' < s2" for i j k' v
    proof -
      have len: "ravel (s0, s1, s2) (i, j, k') < length (nd_data hem)"
        using ravel_less [OF rng] hwf h3 by (simp add: wf_ndarray_def)
      show ?thesis
        using nd_getitem_mask_assign [OF m3 esh [of v] mwf elen [of v] rng, where v = 0]
          nd_eq_nth [OF len, of v]
        by (simp del: ravel.simps nd_getitem.simps)
    qed
    have "\<exists>a h. nd_getitem m (int i, int j, int k') = Inr a
             \<and> nd_getitem hem (int i, int j, int k') = Inr h
             \<and> nd_getitem (?upd RIGHT_HEMI_VAL) (int i, int j, int k') =
                 Inr (if h = RIGHT_HEMI_VAL then 0 else a)
             \<and> nd_getitem (?upd LEFT_HEMI_VAL) (int i, int j, int k') =
                 Inr (if h = LEFT_HEMI_VAL then 0 else a)"
      if rng: "i < s0 \<and> j < s1 \<and> k' < s2" for i j k'
      using nd_getitem_in_range [OF m3, of i j k'] nd_getitem_in_range [OF h3, of i j k']
        pt [of i j k'] rng
      by (simp del: ravel.simps)
    then show ?thesis
      using l r msh by (intro exI [of _ "?upd RIGHT_HEMI_VAL"] exI [of _ "?upd LEFT_HEMI_VAL"]) simp
  qed
  show ?thesis
    using desc dset run [of 0] msh mdt base filt
    by (intro exI [of _ ?ds] exI [of _ m]) (simp del: ravel.simps)
qed

theorem get_structure_mask_voxels_witness:
  "StructuresDict_init example_structures = Inr (structures example_atlas)
   \<and> paths_resolve example_structures
   \<and> sd_getitem (structures example_atlas) (Id 7) = Inr (example_structures ! 1)
   \<and> annotation example_atlas =
        (Inr example_annotation, example_atlas\<lparr>priv_annotation := Some example_annotation\<rparr>)
   \<and> nd_shape example_annotation = shape example_atlas
   \<and> wf_ndarray example_annotation
   \<and> shape example_atlas = (2, 2, 2)
   \<and> in_dtype (nd_dtype example_annotation) (struct_id (example_structures ! 1))
   \<and> (\<exists>ds m ml s.
         get_structure_descendants example_atlas (Id 7) = Inr ds
       \<and> set ds = {''B'', ''C''}
       \<and> get_structure_mask NumPy2 example_atlas (Id 7) 0 =
           (Inr m, example_atlas\<lparr>priv_annotation := Some example_annotation\<rparr>)
       \<and> nd_dtype m = UInt32
       \<and> nd_getitem example_annotation (0, 1, 0) = Inr 8
       \<and> nd_getitem m (0, 1, 0) = Inr 7
       \<and> nd_getitem example_annotation (1, 0, 0) = Inr 99
       \<and> nd_getitem m (1, 0, 0) = Inr 0
       \<and> get_structure_mask NumPy2 example_atlas (Id 7) (- 1) = (Inr ml, s)
       \<and> nd_getitem example_hemispheres (0, 0, 1) = Inr 2
       \<and> nd_getitem m (0, 0, 1) = Inr 7
       \<and> nd_getitem ml (0, 0, 1) = Inr 0
       \<and> nd_getitem ml (0, 1, 0) = Inr 7)"
proof -
  let ?self' = "example_atlas\<lparr>priv_annotation := Some example_annotation\<rparr>"
  let ?self'' = "example_atlas\<lparr>priv_annotation := Some example_annotation,
                               priv_hemispheres := Some example_hemispheres\<rparr>"
  have vsh: "nd_shape example_annotation = shape example_atlas"
    by (simp add: example_annotation_def example_atlas_shape)
  have vwf: "wf_ndarray example_annotation"
    by (simp add: example_annotation_def wf_ndarray_def)
  have hwf: "wf_ndarray example_hemispheres"
    and hsh: "nd_shape example_hemispheres = shape example_atlas"
    by (simp_all add: example_hemispheres_def wf_ndarray_def example_atlas_shape)
  have sid: "struct_id (example_structures ! 1) = 7"
    by (simp add: example_structures_def)
  have vdt: "nd_dtype example_annotation = UInt32"
    by (simp add: example_annotation_def)
  have fits: "in_dtype (nd_dtype example_annotation) (struct_id (example_structures ! 1))"
    unfolding sid vdt by (simp add: in_dtype_def)
  have paths: "{acronym D | D. D \<in> set example_structures
                  \<and> 7 \<in> set (butlast (structure_id_path D))} = {''B'', ''C''}"
  proof -
    have "{acronym D | D. D \<in> set example_structures \<and> 7 \<in> set (butlast (structure_id_path D))} =
            set (map acronym (filter (\<lambda>D. 7 \<in> set (butlast (structure_id_path D))) example_structures))"
      by auto
    also have "\<dots> = {''B'', ''C''}" by (simp add: example_structures_def)
    finally show ?thesis .
  qed
  have ids: "insert 7 {struct_id D | D. D \<in> set example_structures
                         \<and> 7 \<in> set (butlast (structure_id_path D))} = {7, 8, 9}"
  proof -
    have "{struct_id D | D. D \<in> set example_structures \<and> 7 \<in> set (butlast (structure_id_path D))} =
            set (map struct_id (filter (\<lambda>D. 7 \<in> set (butlast (structure_id_path D))) example_structures))"
      by auto
    also have "\<dots> = {8, 9}" by (simp add: example_structures_def)
    finally show ?thesis by auto
  qed
  obtain ds m where ds: "get_structure_descendants example_atlas (Id 7) = Inr ds"
    and dset': "set ds = {acronym D | D. D \<in> set example_structures
                   \<and> struct_id (example_structures ! 1) \<in> set (butlast (structure_id_path D))}"
    and m0: "get_structure_mask NumPy2 example_atlas (Id 7) 0 = (Inr m, ?self')"
    and mdt: "nd_dtype m = nd_dtype example_annotation"
    and mpt': "\<And>i j k. i < 2 \<and> j < 2 \<and> k < 2 \<Longrightarrow>
                \<exists>a. nd_getitem example_annotation (int i, int j, int k) = Inr a
                  \<and> nd_getitem m (int i, int j, int k) =
                      Inr (if a \<in> insert (struct_id (example_structures ! 1))
                                     {struct_id D | D. D \<in> set example_structures
                                        \<and> struct_id (example_structures ! 1)
                                            \<in> set (butlast (structure_id_path D))}
                           then struct_id (example_structures ! 1) else 0)"
    and filt': "\<And>hem self''.
                  hemispheres ?self' = (Inr hem, self'') \<and> wf_ndarray hem
                  \<and> nd_shape hem = shape example_atlas \<Longrightarrow>
                  \<exists>ml mr.
                    get_structure_mask NumPy2 example_atlas (Id 7) (- 1) = (Inr ml, self'')
                  \<and> get_structure_mask NumPy2 example_atlas (Id 7) 1 = (Inr mr, self'')
                  \<and> nd_shape ml = shape example_atlas \<and> nd_shape mr = shape example_atlas
                  \<and> (\<forall>i j k. i < 2 \<and> j < 2 \<and> k < 2 \<longrightarrow>
                        (\<exists>a h. nd_getitem m (int i, int j, int k) = Inr a
                           \<and> nd_getitem hem (int i, int j, int k) = Inr h
                           \<and> nd_getitem ml (int i, int j, int k) =
                               Inr (if h = RIGHT_HEMI_VAL then 0 else a)
                           \<and> nd_getitem mr (int i, int j, int k) =
                               Inr (if h = LEFT_HEMI_VAL then 0 else a)))"
    using get_structure_mask_voxels
            [OF example_atlas_catalog example_paths_resolve example_atlas_key_A
                example_atlas_annotation vsh vwf example_atlas_shape fits, of NumPy2]
    by blast
  have dset: "set ds = {''B'', ''C''}" using dset' unfolding sid paths .
  have mpt: "\<exists>a. nd_getitem example_annotation (int i, int j, int k) = Inr a
               \<and> nd_getitem m (int i, int j, int k) = Inr (if a \<in> {7, 8, 9} then 7 else 0)"
    if "i < 2 \<and> j < 2 \<and> k < 2" for i j k
    using mpt' [OF that] unfolding sid ids .
  have filt: "\<exists>ml mr.
                  get_structure_mask NumPy2 example_atlas (Id 7) (- 1) = (Inr ml, ?self'')
                \<and> get_structure_mask NumPy2 example_atlas (Id 7) 1 = (Inr mr, ?self'')
                \<and> nd_shape ml = shape example_atlas \<and> nd_shape mr = shape example_atlas
                \<and> (\<forall>i j k. i < 2 \<and> j < 2 \<and> k < 2 \<longrightarrow>
                      (\<exists>a h. nd_getitem m (int i, int j, int k) = Inr a
                         \<and> nd_getitem example_hemispheres (int i, int j, int k) = Inr h
                         \<and> nd_getitem ml (int i, int j, int k) =
                             Inr (if h = RIGHT_HEMI_VAL then 0 else a)
                         \<and> nd_getitem mr (int i, int j, int k) =
                             Inr (if h = LEFT_HEMI_VAL then 0 else a)))"
    by (rule filt') (use example_atlas_hemispheres hwf hsh in blast)
  obtain ml where l: "get_structure_mask NumPy2 example_atlas (Id 7) (- 1) = (Inr ml, ?self'')"
    and lpt: "\<And>i j k. i < 2 \<and> j < 2 \<and> k < 2 \<Longrightarrow>
                \<exists>a h. nd_getitem m (int i, int j, int k) = Inr a
                  \<and> nd_getitem example_hemispheres (int i, int j, int k) = Inr h
                  \<and> nd_getitem ml (int i, int j, int k) = Inr (if h = RIGHT_HEMI_VAL then 0 else a)"
    using filt by blast
  have a1: "nd_getitem example_annotation (0, 1, 0) = Inr 8"
    and a2: "nd_getitem example_annotation (1, 0, 0) = Inr 99"
    and a3: "nd_getitem example_annotation (0, 0, 1) = Inr 7"
    and h1: "nd_getitem example_hemispheres (0, 0, 1) = Inr 2"
    and h2: "nd_getitem example_hemispheres (0, 1, 0) = Inr 1"
    by (simp_all add: example_annotation_def example_hemispheres_def norm_index_def)
  have m1: "nd_getitem m (0, 1, 0) = Inr 7" using mpt [of 0 1 0] a1 by simp
  have m2: "nd_getitem m (1, 0, 0) = Inr 0" using mpt [of 1 0 0] a2 by simp
  have m3: "nd_getitem m (0, 0, 1) = Inr 7" using mpt [of 0 0 1] a3 by simp
  have l1: "nd_getitem ml (0, 0, 1) = Inr 0"
    using lpt [of 0 0 1] h1 by (simp add: RIGHT_HEMI_VAL_def)
  have l2: "nd_getitem ml (0, 1, 0) = Inr 7"
    using lpt [of 0 1 0] h2 m1 by (simp add: RIGHT_HEMI_VAL_def)
  have mdt': "nd_dtype m = UInt32" using mdt vdt by simp
  show ?thesis
    using example_atlas_catalog example_paths_resolve example_atlas_key_A
      example_atlas_annotation vsh vwf example_atlas_shape fits ds dset m0 mdt'
      a1 m1 a2 m2 l h1 m3 l1 l2
    by blast
qed

text \<open>
  The claim as stated fails for a valid key whose id does not fit the dtype of the
  annotation: in the atlas with a \<^verbatim>\<open>uint8\<close> annotation the structure \<open>E\<close> has the id
  300. On NumPy 2 the call raises \<^verbatim>\<open>OverflowError\<close>; on NumPy 1 the mask holds 44, not
  300, at the voxel \<open>(0, 0, 0)\<close>, whose annotation value 5 is the id of the descendant
  \<open>F\<close>.
\<close>

theorem get_structure_mask_id_overflow:
  "sd_getitem (structures narrow_atlas) (Id 300) = Inr (wide_structures ! 1)
   \<and> struct_id (wide_structures ! 1) = 300
   \<and> nd_dtype narrow_annotation = UInt8
   \<and> get_structure_descendants narrow_atlas (Id 300) = Inr [''F'']
   \<and> nd_getitem narrow_annotation (0, 0, 0) = Inr 5
   \<and> fst (get_structure_mask NumPy2 narrow_atlas (Id 300) 0) = Inl OverflowError
   \<and> (\<exists>m. fst (get_structure_mask NumPy1 narrow_atlas (Id 300) 0) = Inr m
          \<and> nd_getitem m (0, 0, 0) = Inr 44)"
proof -
  have sid: "struct_id (wide_structures ! 1) = 300"
    by (simp add: wide_structures_def)
  have vdt: "nd_dtype narrow_annotation = UInt8"
    and vsh: "nd_shape narrow_annotation = shape narrow_atlas"
    and vwf: "wf_ndarray narrow_annotation"
    by (simp_all add: narrow_annotation_def narrow_atlas_shape wf_ndarray_def)
  have ds: "get_structure_descendants narrow_atlas (Id 300) = Inr [''F'']"
    using get_structure_descendants_ok
            [OF narrow_atlas_catalog wide_paths_resolve narrow_atlas_key_E]
    by (simp add: wide_structures_def)
  have a0: "nd_getitem narrow_annotation (0, 0, 0) = Inr 5"
    by (simp add: narrow_annotation_def norm_index_def)
  have c2: "np_cast NumPy2 (nd_dtype narrow_annotation) (struct_id (wide_structures ! 1)) =
              Inl OverflowError"
    unfolding sid vdt by (simp add: np_cast_def in_dtype_def)
  have c1: "np_cast NumPy1 (nd_dtype narrow_annotation) (struct_id (wide_structures ! 1)) =
              Inr 44"
    unfolding sid vdt by (simp add: np_cast_def in_dtype_def wrap_dtype_def)
  have two: "fst (get_structure_mask NumPy2 narrow_atlas (Id 300) 0) = Inl OverflowError"
    using get_structure_mask_overflow
            [OF narrow_atlas_catalog wide_paths_resolve narrow_atlas_key_E
                narrow_atlas_annotation vsh c2, of 0]
    by simp
  obtain m where m0: "get_structure_mask NumPy1 narrow_atlas (Id 300) 0 =
                        (Inr m, narrow_atlas\<lparr>priv_annotation := Some narrow_annotation\<rparr>)"
    and mpt: "\<And>i j k. i < 2 \<and> j < 2 \<and> k < 2 \<Longrightarrow>
                nd_getitem m (int i, int j, int k) =
                  Inr (if nd_data narrow_annotation ! ravel (2, 2, 2) (i, j, k)
                          \<in> insert (struct_id (wide_structures ! 1))
                              (struct_id ` {r \<in> set wide_structures.
                                 struct_id (wide_structures ! 1)
                                   \<in> set (butlast (structure_id_path r))})
                       then 44 else 0)"
    using get_structure_mask_prefix
            [OF narrow_atlas_catalog wide_paths_resolve narrow_atlas_key_E
                narrow_atlas_annotation vsh narrow_atlas_shape c1]
      vwf
    by (metis (no_types, lifting))
  have ids: "struct_id ` {r \<in> set wide_structures.
                 300 \<in> set (butlast (structure_id_path r))} = {5}"
  proof -
    have "struct_id ` {r \<in> set wide_structures. 300 \<in> set (butlast (structure_id_path r))} =
            set (map struct_id
                   (filter (\<lambda>r. 300 \<in> set (butlast (structure_id_path r))) wide_structures))"
      by auto
    also have "\<dots> = {5}" by (simp add: wide_structures_def)
    finally show ?thesis .
  qed
  have d0: "nd_data narrow_annotation ! ravel (2, 2, 2) (0, 0, 0) = 5"
    by (simp add: narrow_annotation_def)
  have "nd_getitem m (int 0, int 0, int 0) = Inr 44"
    using mpt [of 0 0 0] unfolding sid ids d0 by simp
  then have "nd_getitem m (0, 0, 0) = Inr 44" by simp
  then show ?thesis
    using narrow_atlas_key_E sid vdt ds a0 two m0 by simp
qed



subsection \<open>Coordinate queries\<close>

lemma structure_from_coords_unknown:
  assumes "annotation self = (Inr vol, self')"
    and "idx_from_coords self' coords microns = Inr idx"
    and "nd_getitem vol idx = Inr rid"
    and "sd_getitem (structures self') (Id rid) = Inl KeyError"
  shows "structure_from_coords self coords microns True None label = (Inr (StructName label), self')"
    and "structure_from_coords self coords microns True (Some lev) label = (Inl KeyError, self')"
  using assms by (simp_all add: structure_from_coords_def)

text \<open>
  Claim C2. The voxel \<open>(0, 0, 0)\<close> of the example annotation holds the background
  value 0, which is not a known structure. With \<^verbatim>\<open>as_acronym=True\<close> and no
  \<^verbatim>\<open>hierarchy_lev\<close>, \<^verbatim>\<open>structure_from_coords\<close> returns the string \<^verbatim>\<open>key_error_string\<close>
  there, as the claim says. With \<^verbatim>\<open>hierarchy_lev=0\<close> it raises \<^verbatim>\<open>KeyError\<close> instead of
  returning the string: the lookup of the path comes before the \<^verbatim>\<open>try\<close>.
\<close>

theorem structure_from_coords_hierarchy_background:
  "nd_getitem example_annotation (0, 0, 0) = Inr 0
   \<and> sd_getitem (structures example_atlas) (Id 0) = Inl KeyError
   \<and> fst (structure_from_coords example_atlas (PyInt 0, PyInt 0, PyInt 0) False True None
            ''Outside atlas'') = Inr (StructName ''Outside atlas'')
   \<and> fst (structure_from_coords example_atlas (PyInt 0, PyInt 0, PyInt 0) False True (Some 0)
            ''Outside atlas'') = Inl KeyError"
  by (simp add: structure_from_coords_def annotation_def example_atlas_def example_storage_def
        read_tiff_def idx_from_coords_def example_annotation_def norm_index_def
        sd_getitem_def example_catalog_def example_structures_def)

subsection \<open>Construction and the reference store\<close>

lemma Atlas_init_outdated:
  assumes "md_additional_references (metadata_json path) = None"
    and "StructuresDict_init (structures_json path) = Inr sd"
  shows "\<exists>a. Atlas_init path mk_space = (Inr a, [OutdatedAtlas])
           \<and> additional_references a = None
           \<and> structures a = sd \<and> metadata a = metadata_json path
           \<and> priv_annotation a = None \<and> priv_hemispheres a = None \<and> priv_reference a = None"
  using assms by (simp add: Atlas_init_def Let_def)

lemma Atlas_init_store:
  assumes "md_additional_references (metadata_json path) = Some refs"
    and "StructuresDict_init (structures_json path) = Inr sd"
  shows "\<exists>a. Atlas_init path mk_space = (Inr a, [])
           \<and> additional_references a = Some (AdditionalRefDict_init refs path [])"
  using assms by (simp add: Atlas_init_def Let_def)

text \<open>
  Claim C5. With no \<^verbatim>\<open>additional_references\<close> key in the metadata, \<^verbatim>\<open>Atlas.__init__\<close>
  emits one warning and returns an atlas, as the claim says. The atlas has no reference
  store, though: the \<^verbatim>\<open>except\<close> branch never sets the attribute
  \<^verbatim>\<open>additional_references\<close>, and reading it raises \<^verbatim>\<open>AttributeError\<close>, where the claim
  says an empty store is there.
\<close>

theorem Atlas_init_without_additional_references:
  "md_additional_references (metadata_json outdated_storage) = None
   \<and> (\<exists>a. Atlas_init outdated_storage example_space = (Inr a, [OutdatedAtlas])
          \<and> additional_references a = None
          \<and> get_additional_references a = Inl AttributeError)"
  by (simp add: Atlas_init_def outdated_storage_def example_storage_def example_catalog_init
        get_additional_references_def Let_def)

lemma ard_getitem_keys:
  assumes "ard_getitem s n = (r, s', ev)"
  shows "references_list s' = references_list s"
    and "set (ard_keys s') \<subseteq> set (ard_keys s) \<union> ({n} \<inter> set (references_list s))"
  using assms
  by (auto simp: ard_getitem_def ard_keys_def split: if_splits sum.splits option.splits)

lemma store_reachable_keys:
  "store_reachable s \<Longrightarrow> set (ard_keys s) \<subseteq> set (references_list s)"
proof (induction rule: store_reachable.induct)
  case (init refs path)
  then show ?case by (simp add: AdditionalRefDict_init_def ard_keys_def)
next
  case (lookup s n r s' ev)
  then show ?case using ard_getitem_keys [OF lookup.hyps(2)] by auto
qed

lemma Atlas_init_store_reachable:
  assumes "Atlas_init path mk_space = (Inr a, ws)" "additional_references a = Some s"
  shows "store_reachable s"
  using assms
  by (auto simp: Atlas_init_def Let_def split: sum.splits option.splits
        intro: store_reachable.init)

lemma example_store_load:
  "ard_getitem example_store ''extra'' =
     (Inr (Some example_annotation),
      example_store\<lparr>ard_data := [(''extra'', example_annotation)]\<rparr>, [ReadTiff ''extra''])"
  by (simp add: ard_getitem_def example_store_def AdditionalRefDict_init_def ard_keys_def
        example_storage_def read_tiff_def)

text \<open>
  A store constructed with initial content under a name outside the allow-list returns
  that content, without a warning.
\<close>

lemma ard_getitem_initial_content:
  "ard_getitem (AdditionalRefDict_init [] example_storage [(''x'', example_annotation)]) ''x'' =
     (Inr (Some example_annotation),
      AdditionalRefDict_init [] example_storage [(''x'', example_annotation)], [])"
  by (simp add: ard_getitem_def AdditionalRefDict_init_def ard_keys_def)

text \<open>
  Claim C8. In every state of a reference store that an atlas can reach, for every name
  that is not in \<^verbatim>\<open>references_list\<close> the lookup returns \<^verbatim>\<open>None\<close> and does not raise; it
  emits exactly one warning, reads no file and leaves the store as it was.
\<close>

theorem ard_getitem_not_allowed:
  assumes "store_reachable self" and "ref_name \<notin> set (references_list self)"
  shows "ard_getitem self ref_name =
           (Inr None, self, [Warn (NoReferenceNamed ref_name (references_list self))])"
proof -
  have "ref_name \<notin> set (ard_keys self)"
    using store_reachable_keys [OF assms(1)] assms(2) by auto
  then show ?thesis using assms(2) by (simp add: ard_getitem_def)
qed

theorem ard_getitem_not_allowed_witness:
  "store_reachable (example_store\<lparr>ard_data := [(''extra'', example_annotation)]\<rparr>)
   \<and> ''other'' \<notin> set (references_list (example_store\<lparr>ard_data := [(''extra'', example_annotation)]\<rparr>))
   \<and> ard_getitem (example_store\<lparr>ard_data := [(''extra'', example_annotation)]\<rparr>) ''other'' =
        (Inr None, example_store\<lparr>ard_data := [(''extra'', example_annotation)]\<rparr>,
         [Warn (NoReferenceNamed ''other'' [''extra''])])"
proof -
  let ?s = "example_store\<lparr>ard_data := [(''extra'', example_annotation)]\<rparr>"
  have "store_reachable example_store"
    unfolding example_store_def by (rule store_reachable.init)
  then have r: "store_reachable ?s"
    using example_store_load by (rule store_reachable.lookup)
  have n: "''other'' \<notin> set (references_list ?s)"
    by (simp add: example_store_def AdditionalRefDict_init_def)
  have l: "references_list ?s = [''extra'']"
    by (simp add: example_store_def AdditionalRefDict_init_def)
  show ?thesis
    using ard_getitem_not_allowed [OF r n] r n unfolding l by simp
qed
subsection \<open>Floating-point rounding\<close>




lemma round_half_even_int: "round_half_even (of_int m) = m"
  by (simp add: round_half_even_def)

lemma float_exponent_int:
  assumes "0 < n"
  shows "float_exponent (of_int n) = bitlen n - 1"
proof -
  have q: "quotient_of \<bar>of_int n :: rat\<bar> = (n, 1)"
    using assms by (simp flip: of_int_abs)
  have "(2 :: rat) powi (bitlen n - 1) = 2 ^ nat (bitlen n - 1)"
    using bitlen_nonneg [of n] bitlen_eq_zero_iff [of n] assms
    by (simp add: power_int_nonneg_exp)
  also have "\<dots> = of_int (2 ^ nat (bitlen n - 1))" by simp
  also have "\<dots> \<le> of_int n"
    using bitlen_bounds [OF assms] by (subst of_int_le_iff) simp
  finally have "(2 :: rat) powi (bitlen n - 1) \<le> \<bar>of_int n\<bar>" using assms by simp
  moreover have "bitlen 1 = 1" by (subst compute_bitlen) simp
  ultimately show ?thesis
    using assms by (simp add: float_exponent_def q Let_def)
qed

lemma round_double_int:
  assumes "0 \<le> n" "n < 2 ^ 53"
  shows "round_double (of_int n) = Some (of_int n)"
proof (cases "n = 0")
  case True
  then show ?thesis by (simp add: round_double_def)
next
  case False
  then have pos: "0 < n" using assms by simp
  define e where "e = bitlen n - 1 - 52"
  have bl: "bitlen n \<le> 53" using assms by (simp add: bitlen_le_iff_power)
  have bl1: "1 \<le> bitlen n" using bitlen_eq_zero_iff [of n] bitlen_nonneg [of n] pos by linarith
  have e: "e \<le> 0" "- 1074 \<le> e" using bl bl1 by (simp_all add: e_def)
  have mx: "max (float_exponent (of_int n) - 52) (- 1074) = e"
    using float_exponent_int [OF pos] e by (simp add: e_def)
  have pw: "(2 :: rat) powi e = 1 / 2 ^ nat (- e)"
    using e by (simp add: power_int_def field_simps)
  have sc: "(of_int n :: rat) / 2 powi e = of_int (n * 2 ^ nat (- e))"
    by (simp add: pw)
  have unscale: "(of_int (n * 2 ^ nat (- e)) :: rat) * 2 powi e = of_int n"
    by (simp add: pw)
  have small: "\<not> (2 :: rat) powi 1024 \<le> \<bar>of_int n\<bar>"
  proof -
    have "(of_int n :: rat) < of_int (2 ^ 53)" using assms by (subst of_int_less_iff) simp
    also have "\<dots> \<le> 2 ^ 1024" by simp
    finally show ?thesis using pos by simp
  qed
  have nz: "(of_int n :: rat) \<noteq> 0" using pos by simp
  show ?thesis
    unfolding round_double_def Let_def mx sc round_half_even_int unscale
    using nz small by simp
qed

lemma trunc_toward_zero:
  "\<bar>of_int (trunc q)\<bar> \<le> \<bar>q\<bar> \<and> \<bar>q\<bar> < \<bar>of_int (trunc q)\<bar> + 1
   \<and> (0 \<le> q \<longrightarrow> 0 \<le> trunc q) \<and> (q \<le> 0 \<longrightarrow> trunc q \<le> 0)"
proof (cases "0 \<le> q")
  case True
  then have t: "trunc q = \<lfloor>q\<rfloor>" by (simp add: trunc_def)
  have "0 \<le> \<lfloor>q\<rfloor>" using True by simp
  moreover have "of_int \<lfloor>q\<rfloor> \<le> q" "q < of_int \<lfloor>q\<rfloor> + 1" by linarith+
  ultimately show ?thesis using True unfolding t by auto
next
  case False
  then have t: "trunc q = \<lceil>q\<rceil>" by (simp add: trunc_def)
  have "\<lceil>q\<rceil> \<le> 0" using False by (simp add: ceiling_le_iff)
  moreover have "q \<le> of_int \<lceil>q\<rceil>" "of_int \<lceil>q\<rceil> - 1 < q" by linarith+
  ultimately show ?thesis using False unfolding t by auto
qed

lemma trunc_of_int: "trunc (of_int n) = n"
  by (simp add: trunc_def)

lemma py_truediv_exact_product:
  assumes nz: "py_value r \<noteq> 0"
    and x: "0 \<le> x" "x < 2 ^ 53"
    and mul: "py_mul (PyInt x) r = Some c"
    and exact: "py_value c = of_int x * py_value r"
  shows "py_truediv c r = Inr (Finite (of_int x))"
proof (cases r)
  case (PyInt n)
  then have c: "c = PyInt (x * n)" using mul by simp
  have "(of_int (x * n) :: rat) / of_int n = of_int x" using nz PyInt by simp
  then show ?thesis
    using nz PyInt c round_double_int [OF x] by simp
next
  case (PyFloat p)
  obtain c' where c: "c = PyFloat c'"
    using mul PyFloat by (auto split: sum.splits)
  have "c' = of_int x * p" using exact c PyFloat by simp
  then have "c' / p = of_int x" using nz PyFloat by simp
  then show ?thesis
    using nz PyFloat c round_double_int [OF x] by simp
qed

lemma round_tenth: "round_double (1 / 10) = Some (3602879701896397 / 36028797018963968)"
  by code_simp

lemma mul_43_tenth:
  "round_double (43 * (3602879701896397 / 36028797018963968)) =
     Some (4841369599423283 / 1125899906842624)"
  by code_simp

lemma div_43_tenth:
  "round_double ((4841369599423283 / 1125899906842624) / (3602879701896397 / 36028797018963968)) =
     Some (6051711999279103 / 140737488355328)"
  by code_simp

lemma round_zero: "round_double 0 = Some 0"
  by (simp add: round_double_def)

lemma trunc_42: "trunc (6051711999279103 / 140737488355328) = 42"
proof -
  have "\<lfloor>6051711999279103 / 140737488355328 :: rat\<rfloor> = 42"
    by (rule floor_unique) simp_all
  then show ?thesis by (simp add: trunc_def)
qed

lemma round_five_halves: "round_double (5 / 2) = Some (5 / 2)"
  by code_simp

lemma round_ninety_one_halves: "round_double (91 / 2) = Some (91 / 2)"
  by code_simp

lemma round_two_point_nine: "round_double (29 / 10) = Some (6530219459687219 / 2251799813685248)"
  by code_simp

text \<open>
  Claim C7, as amended. \<^verbatim>\<open>_idx_from_coords\<close> converts each coordinate with \<^verbatim>\<open>int\<close>, which
  truncates toward zero, after dividing it by the resolution of its axis when \<^verbatim>\<open>microns\<close>
  is true. For integers \<open>0 \<le> x, y, z < 2\<^sup>5\<^sup>3\<close> and a non-zero resolution the round
  trip through \<open>(x * rx, y * ry, z * rz)\<close> gives \<open>(x, y, z)\<close> back whenever each
  product is exact, which it always is for a resolution that is an \<^verbatim>\<open>int\<close>.
\<close>

theorem idx_from_coords_round_trip:
  assumes res: "resolution self = (rx, ry, rz)"
    and nz: "py_value rx \<noteq> 0" "py_value ry \<noteq> 0" "py_value rz \<noteq> 0"
    and x: "0 \<le> x" "x < 2 ^ 53" and y: "0 \<le> y" "y < 2 ^ 53" and z: "0 \<le> z" "z < 2 ^ 53"
    and cx: "py_mul (PyInt x) rx = Some cx" "py_value cx = of_int x * py_value rx"
    and cy: "py_mul (PyInt y) ry = Some cy" "py_value cy = of_int y * py_value ry"
    and cz: "py_mul (PyInt z) rz = Some cz" "py_value cz = of_int z * py_value rz"
  shows "idx_from_coords self (cx, cy, cz) True = Inr (x, y, z)
    \<and> (\<forall>c0 c1 c2 q0 q1 q2.
          py_truediv c0 rx = Inr (Finite q0) \<and> py_truediv c1 ry = Inr (Finite q1)
          \<and> py_truediv c2 rz = Inr (Finite q2) \<longrightarrow>
          idx_from_coords self (c0, c1, c2) True = Inr (trunc q0, trunc q1, trunc q2))
    \<and> (\<forall>c0 c1 c2. idx_from_coords self (c0, c1, c2) False = Inr (py_int c0, py_int c1, py_int c2))
    \<and> (\<forall>n. py_int (PyInt n) = n)
    \<and> (\<forall>q. py_int (PyFloat q) = trunc q
            \<and> \<bar>of_int (trunc q)\<bar> \<le> \<bar>q\<bar> \<and> \<bar>q\<bar> < \<bar>of_int (trunc q)\<bar> + 1
            \<and> (0 \<le> q \<longrightarrow> 0 \<le> trunc q) \<and> (q \<le> 0 \<longrightarrow> trunc q \<le> 0))"
proof (intro conjI allI impI)
  show "idx_from_coords self (cx, cy, cz) True = Inr (x, y, z)"
    using py_truediv_exact_product [OF nz(1) x cx] py_truediv_exact_product [OF nz(2) y cy]
      py_truediv_exact_product [OF nz(3) z cz]
    by (simp add: idx_from_coords_def res trunc_of_int)
next
  fix c0 c1 c2 q0 q1 q2
  assume "py_truediv c0 rx = Inr (Finite q0) \<and> py_truediv c1 ry = Inr (Finite q1)
          \<and> py_truediv c2 rz = Inr (Finite q2)"
  then show "idx_from_coords self (c0, c1, c2) True = Inr (trunc q0, trunc q1, trunc q2)"
    by (simp add: idx_from_coords_def res)
next
  fix c0 c1 c2
  show "idx_from_coords self (c0, c1, c2) False = Inr (py_int c0, py_int c1, py_int c2)"
    by (simp add: idx_from_coords_def)
next
  fix n show "py_int (PyInt n) = n" by simp
next
  fix q show "py_int (PyFloat q) = trunc q" by simp
next
  fix q :: rat show "\<bar>of_int (trunc q)\<bar> \<le> \<bar>q\<bar>" using trunc_toward_zero [of q] by blast
next
  fix q :: rat show "\<bar>q\<bar> < \<bar>of_int (trunc q)\<bar> + 1" using trunc_toward_zero [of q] by blast
next
  fix q :: rat assume "0 \<le> q" then show "0 \<le> trunc q" using trunc_toward_zero [of q] by blast
next
  fix q :: rat assume "q \<le> 0" then show "trunc q \<le> 0" using trunc_toward_zero [of q] by blast
qed

theorem idx_from_coords_round_trip_witness:
  "resolution mixed_atlas = (PyInt 25, PyFloat (1 / 2), PyFloat (13 / 2))
   \<and> py_mul (PyInt 3) (PyInt 25) = Some (PyInt 75)
   \<and> py_mul (PyInt 5) (PyFloat (1 / 2)) = Some (PyFloat (5 / 2))
   \<and> py_mul (PyInt 7) (PyFloat (13 / 2)) = Some (PyFloat (91 / 2))
   \<and> idx_from_coords mixed_atlas (PyInt 75, PyFloat (5 / 2), PyFloat (91 / 2)) True = Inr (3, 5, 7)
   \<and> round_double (29 / 10) = Some (6530219459687219 / 2251799813685248)
   \<and> idx_from_coords mixed_atlas
        (PyFloat (6530219459687219 / 2251799813685248), PyInt 0, PyInt 0) False = Inr (2, 0, 0)"
proof -
  have res: "resolution mixed_atlas = (PyInt 25, PyFloat (1 / 2), PyFloat (13 / 2))"
    by (simp add: resolution_def mixed_atlas_def)
  have r5: "round_double (of_int 5) = Some (of_int 5)"
    and r7: "round_double (of_int 7) = Some (of_int 7)"
    by (rule round_double_int; simp)+
  have mx: "py_mul (PyInt 3) (PyInt 25) = Some (PyInt 75)" by simp
  have my: "py_mul (PyInt 5) (PyFloat (1 / 2)) = Some (PyFloat (5 / 2))"
    using r5 round_five_halves by simp
  have mz: "py_mul (PyInt 7) (PyFloat (13 / 2)) = Some (PyFloat (91 / 2))"
    using r7 round_ninety_one_halves by simp
  have all: "idx_from_coords mixed_atlas (PyInt 75, PyFloat (5 / 2), PyFloat (91 / 2)) True = Inr (3, 5, 7)
      \<and> (\<forall>c0 c1 c2. idx_from_coords mixed_atlas (c0, c1, c2) False =
             Inr (py_int c0, py_int c1, py_int c2))"
    using idx_from_coords_round_trip [OF res _ _ _ _ _ _ _ _ _ mx _ my _ mz] by simp
  have "\<lfloor>6530219459687219 / 2251799813685248 :: rat\<rfloor> = 2"
    by (rule floor_unique) simp_all
  then have t: "trunc (6530219459687219 / 2251799813685248) = 2" by (simp add: trunc_def)
  have "idx_from_coords mixed_atlas
        (PyFloat (6530219459687219 / 2251799813685248), PyInt 0, PyInt 0) False = Inr (2, 0, 0)"
    using all t by simp
  then show ?thesis
    using res mx my mz all round_two_point_nine by simp
qed

text \<open>
  The claim as stated fails for the resolution 0.1 at \<open>x = 43\<close>: the product
  \<open>43 * 0.1\<close> is rounded to the double just below 4.3, the quotient to the double
  just below 43, and the truncation gives 42.
\<close>

theorem idx_from_coords_round_trip_fails:
  "round_double (1 / 10) = Some (3602879701896397 / 36028797018963968)
   \<and> py_mul (PyInt 43) (PyFloat (3602879701896397 / 36028797018963968)) =
       Some (PyFloat (4841369599423283 / 1125899906842624))
   \<and> py_mul (PyInt 0) (PyFloat (3602879701896397 / 36028797018963968)) = Some (PyFloat 0)
   \<and> idx_from_coords fine_atlas
        (PyFloat (4841369599423283 / 1125899906842624), PyFloat 0, PyFloat 0) True =
       Inr (42, 0, 0)"
proof -
  have r43: "round_double (of_int 43) = Some (of_int 43)"
    by (rule round_double_int) simp_all
  have r0: "round_double (of_int 0) = Some (of_int 0)"
    by (rule round_double_int) simp_all
  have m43: "py_mul (PyInt 43) (PyFloat (3602879701896397 / 36028797018963968)) =
       Some (PyFloat (4841369599423283 / 1125899906842624))"
    using r43 mul_43_tenth by simp
  have m0: "py_mul (PyInt 0) (PyFloat (3602879701896397 / 36028797018963968)) = Some (PyFloat 0)"
    using r0 round_zero by simp
  have res: "resolution fine_atlas =
               (PyFloat (3602879701896397 / 36028797018963968),
                PyFloat (3602879701896397 / 36028797018963968),
                PyFloat (3602879701896397 / 36028797018963968))"
    by (simp add: resolution_def fine_atlas_def)
  have d43: "py_truediv (PyFloat (4841369599423283 / 1125899906842624))
               (PyFloat (3602879701896397 / 36028797018963968)) =
             Inr (Finite (6051711999279103 / 140737488355328))"
    using div_43_tenth by simp
  have d0: "py_truediv (PyFloat 0) (PyFloat (3602879701896397 / 36028797018963968)) =
             Inr (Finite 0)"
    using round_zero by simp
  have t0: "trunc 0 = 0" by (simp add: trunc_def)
  have "idx_from_coords fine_atlas
        (PyFloat (4841369599423283 / 1125899906842624), PyFloat 0, PyFloat 0) True =
       Inr (42, 0, 0)"
    unfolding idx_from_coords_def res by (simp only: d43 d0 trunc_42 t0 prod.case if_True sum.case py_int_quotient.simps)
  then show ?thesis using round_tenth m43 m0 by simp
qed




























end
